theory Spec2Isabelle
  imports Complex_Main "HOL-Library.Char_ord" "HOL-Library.List_Lexorder"
begin

section \<open>JavaScript values as the ingestion code sees them\<close>

text \<open>
  The rows handed to the ingestion code come out of the CSV parser with dynamic typing:
  a cell is a number, a boolean, a string or null, and a column that is absent reads as
  undefined. A JavaScript number is modelled by the real number it denotes, together
  with the two infinities and NaN; comparisons on doubles agree with the comparisons of
  the reals they denote; the rounding of arithmetic results, and their overflow to an
  infinity, are not represented.
  Strings are ASCII text.
\<close>

datatype jsnum = NaN | NegInf | Fin real | PosInf

datatype jsval = JUndefined | JNull | JBool bool | JNum jsnum | JStr string

text \<open>The relational operators \<open><=\<close> and \<open><\<close> on numbers; every comparison with NaN is false.\<close>

fun num_le :: "jsnum \<Rightarrow> jsnum \<Rightarrow> bool" where
  "num_le NaN _ = False"
| "num_le _ NaN = False"
| "num_le NegInf _ = True"
| "num_le _ PosInf = True"
| "num_le (Fin a) (Fin b) = (a \<le> b)"
| "num_le _ _ = False"

fun num_lt :: "jsnum \<Rightarrow> jsnum \<Rightarrow> bool" where
  "num_lt NaN _ = False"
| "num_lt _ NaN = False"
| "num_lt PosInf _ = False"
| "num_lt _ NegInf = False"
| "num_lt (Fin a) (Fin b) = (a < b)"
| "num_lt _ _ = True"

definition num_ge :: "jsnum \<Rightarrow> jsnum \<Rightarrow> bool" where
  "num_ge a b = num_le b a"

definition num_gt :: "jsnum \<Rightarrow> jsnum \<Rightarrow> bool" where
  "num_gt a b = num_lt b a"

text \<open>\<open>Math.min\<close> and \<open>Math.max\<close> of two numbers: NaN as soon as one argument is NaN.\<close>

definition Math_min :: "jsnum \<Rightarrow> jsnum \<Rightarrow> jsnum" where
  "Math_min a b = (if a = NaN \<or> b = NaN then NaN else if num_le a b then a else b)"

definition Math_max :: "jsnum \<Rightarrow> jsnum \<Rightarrow> jsnum" where
  "Math_max a b = (if a = NaN \<or> b = NaN then NaN else if num_le a b then b else a)"

text \<open>The product of two numbers (\<open>*\<close>): zero times an infinity is NaN.\<close>

fun num_sign :: "jsnum \<Rightarrow> int" where
  "num_sign NaN = 0"
| "num_sign NegInf = - 1"
| "num_sign PosInf = 1"
| "num_sign (Fin r) = (if r < 0 then - 1 else if r = 0 then 0 else 1)"

fun num_mul :: "jsnum \<Rightarrow> jsnum \<Rightarrow> jsnum" where
  "num_mul NaN _ = NaN"
| "num_mul _ NaN = NaN"
| "num_mul (Fin a) (Fin b) = Fin (a * b)"
| "num_mul a b =
     (if num_sign a * num_sign b = 0 then NaN
      else if num_sign a * num_sign b < 0 then NegInf else PosInf)"

fun num_add :: "jsnum \<Rightarrow> jsnum \<Rightarrow> jsnum" where
  "num_add NaN _ = NaN"
| "num_add _ NaN = NaN"
| "num_add (Fin a) (Fin b) = Fin (a + b)"
| "num_add PosInf NegInf = NaN"
| "num_add NegInf PosInf = NaN"
| "num_add PosInf _ = PosInf"
| "num_add _ PosInf = PosInf"
| "num_add NegInf _ = NegInf"
| "num_add _ NegInf = NegInf"

subsection \<open>String to number\<close>

text \<open>
  \<open>Number(s)\<close> on a string: white space is trimmed, the empty string is 0, then the
  text is a signed decimal literal (digits, fraction, exponent, \<open>Infinity\<close>) or an
  unsigned hexadecimal, octal or binary integer literal; anything else is NaN. The
  result is the exact value of the literal: its rounding to the nearest double, and
  the overflow of a large literal to an infinity, are not represented.
\<close>

fun indexOf :: "'a \<Rightarrow> 'a list \<Rightarrow> nat option" where
  "indexOf c [] = None"
| "indexOf c (x # xs) = (if c = x then Some 0 else map_option Suc (indexOf c xs))"

definition digitOf :: "char \<Rightarrow> nat option" where
  "digitOf c = indexOf c ''0123456789''"

definition hexDigitOf :: "char \<Rightarrow> nat option" where
  "hexDigitOf c =
     (case indexOf c ''0123456789abcdef'' of
        Some d \<Rightarrow> Some d
      | None \<Rightarrow> map_option (\<lambda>d. d + 10) (indexOf c ''ABCDEF''))"

definition isDigit :: "char \<Rightarrow> bool" where
  "isDigit c = (digitOf c \<noteq> None)"

definition isWhiteSpace :: "char \<Rightarrow> bool" where
  "isWhiteSpace c = (c = CHR '' '' \<or> c = CHR 0x09 \<or> c = CHR 0x0A \<or> c = CHR 0x0B
                     \<or> c = CHR 0x0C \<or> c = CHR 0x0D)"

definition trim :: "string \<Rightarrow> string" where
  "trim s = rev (dropWhile isWhiteSpace (rev (dropWhile isWhiteSpace s)))"

text \<open>The value of a digit string in a base; the digits are known to be digits of the base.\<close>

definition digitsVal :: "nat \<Rightarrow> string \<Rightarrow> int" where
  "digitsVal base ds =
     foldl (\<lambda>a c. int base * a + (case hexDigitOf c of None \<Rightarrow> 0 | Some d \<Rightarrow> int d)) 0 ds"

definition allDigitsOf :: "nat \<Rightarrow> string \<Rightarrow> bool" where
  "allDigitsOf base ds =
     (ds \<noteq> [] \<and> list_all (\<lambda>c. case hexDigitOf c of None \<Rightarrow> False | Some d \<Rightarrow> d < base) ds)"

text \<open>The exponent part after the \<open>e\<close>: an optional sign and at least one digit.\<close>

definition parseExponent :: "string \<Rightarrow> int option" where
  "parseExponent s =
     (case s of
        [] \<Rightarrow> None
      | c # cs \<Rightarrow>
          if c = CHR ''+'' then (if allDigitsOf 10 cs then Some (digitsVal 10 cs) else None)
          else if c = CHR ''-'' then (if allDigitsOf 10 cs then Some (- digitsVal 10 cs) else None)
          else (if allDigitsOf 10 s then Some (digitsVal 10 s) else None))"

definition scale10 :: "real \<Rightarrow> int \<Rightarrow> real" where
  "scale10 m e = (if 0 \<le> e then m * 10 ^ nat e else m / 10 ^ nat (- e))"

definition parseUnsignedDecimal :: "string \<Rightarrow> jsnum" where
  "parseUnsignedDecimal s =
     (if s = ''Infinity'' then PosInf
      else
        let ip = takeWhile isDigit s;
            r1 = dropWhile isDigit s;
            dot = (r1 \<noteq> [] \<and> hd r1 = CHR ''.'');
            fp = (if dot then takeWhile isDigit (tl r1) else []);
            r2 = (if dot then dropWhile isDigit (tl r1) else r1);
            m = real_of_int (digitsVal 10 ip) + real_of_int (digitsVal 10 fp) / 10 ^ length fp
        in if ip = [] \<and> fp = [] then NaN
           else if r2 = [] then Fin m
           else if hd r2 = CHR ''e'' \<or> hd r2 = CHR ''E'' then
             (case parseExponent (tl r2) of None \<Rightarrow> NaN | Some e \<Rightarrow> Fin (scale10 m e))
           else NaN)"

definition num_neg :: "jsnum \<Rightarrow> jsnum" where
  "num_neg n = (case n of NaN \<Rightarrow> NaN | NegInf \<Rightarrow> PosInf | PosInf \<Rightarrow> NegInf | Fin r \<Rightarrow> Fin (- r))"

definition parseNonDecimal :: "string \<Rightarrow> jsnum option" where
  "parseNonDecimal s =
     (case s of
        z # x # ds \<Rightarrow>
          if z \<noteq> CHR ''0'' then None
          else if x = CHR ''x'' \<or> x = CHR ''X'' then
            Some (if allDigitsOf 16 ds then Fin (real_of_int (digitsVal 16 ds)) else NaN)
          else if x = CHR ''o'' \<or> x = CHR ''O'' then
            Some (if allDigitsOf 8 ds then Fin (real_of_int (digitsVal 8 ds)) else NaN)
          else if x = CHR ''b'' \<or> x = CHR ''B'' then
            Some (if allDigitsOf 2 ds then Fin (real_of_int (digitsVal 2 ds)) else NaN)
          else None
      | _ \<Rightarrow> None)"

definition StringToNumber :: "string \<Rightarrow> jsnum" where
  "StringToNumber s0 =
     (let s = trim s0 in
      if s = [] then Fin 0
      else case parseNonDecimal s of
        Some n \<Rightarrow> n
      | None \<Rightarrow>
          if hd s = CHR ''+'' then parseUnsignedDecimal (tl s)
          else if hd s = CHR ''-'' then num_neg (parseUnsignedDecimal (tl s))
          else parseUnsignedDecimal s)"

text \<open>\<open>Number(v)\<close>.\<close>

fun toNumber :: "jsval \<Rightarrow> jsnum" where
  "toNumber JUndefined = NaN"
| "toNumber JNull = Fin 0"
| "toNumber (JBool b) = (if b then Fin 1 else Fin 0)"
| "toNumber (JNum n) = n"
| "toNumber (JStr s) = StringToNumber s"

text \<open>Truthiness, the operator \<open>||\<close> and strict equality \<open>===\<close>.\<close>

fun truthy :: "jsval \<Rightarrow> bool" where
  "truthy JUndefined = False"
| "truthy JNull = False"
| "truthy (JBool b) = b"
| "truthy (JNum n) = (n \<noteq> NaN \<and> n \<noteq> Fin 0)"
| "truthy (JStr s) = (s \<noteq> [])"

definition js_or :: "jsval \<Rightarrow> jsval \<Rightarrow> jsval" where
  "js_or a b = (if truthy a then a else b)"

definition strictEq :: "jsval \<Rightarrow> jsval \<Rightarrow> bool" where
  "strictEq a b = (a = b \<and> a \<noteq> JNum NaN)"

section \<open>Validity predicates\<close>

text \<open>\<open>isValidValue\<close> of the in-memory server and of the database loader (the same text).\<close>

definition isValidValue :: "jsval \<Rightarrow> bool" where
  "isValidValue v =
     (v \<noteq> JNull \<and> v \<noteq> JUndefined \<and>
      toNumber v \<noteq> NaN \<and> toNumber v \<noteq> Fin 99999 \<and>
      num_gt (toNumber v) (Fin (- 999)) \<and> v \<noteq> JStr [])"

definition ArgoCsvProcessor_isValidValue :: "jsval \<Rightarrow> bool" where
  "ArgoCsvProcessor_isValidValue v =
     (v \<noteq> JNull \<and> v \<noteq> JUndefined \<and> toNumber v \<noteq> NaN \<and> toNumber v \<noteq> Fin 99999 \<and>
      num_gt (toNumber v) (Fin (- 999)) \<and> v \<noteq> JStr [])"

text \<open>\<open>isValidCoordinate\<close> of the in-memory server: one range for both coordinates.\<close>

definition isValidCoordinate :: "jsval \<Rightarrow> bool" where
  "isValidCoordinate coord =
     (let num = toNumber coord in
      num \<noteq> NaN \<and> num_ge num (Fin (- 180)) \<and> num_le num (Fin 180))"

text \<open>\<open>isValidCoordinate\<close> of the database loader.\<close>

definition ArgoCsvProcessor_isValidCoordinate :: "jsval \<Rightarrow> bool" where
  "ArgoCsvProcessor_isValidCoordinate coord =
     (let num = toNumber coord in
      num \<noteq> NaN \<and> num_ge num (Fin (- 90)) \<and> num_le num (Fin 90))"

text \<open>\<open>pressureToDepth\<close> of the database loader.\<close>

definition pressureToDepth :: "jsnum \<Rightarrow> jsnum" where
  "pressureToDepth pressure = num_mul pressure (Fin 1.019716)"

section \<open>Dates\<close>

text \<open>
  A \<open>Date\<close> object holds a time value, an integral number of milliseconds since
  1970-01-01T00:00:00Z of magnitude at most 8.64e15, or is an invalid date.
\<close>

datatype jsdate = InvalidDate | Date int

definition TimeClip :: "jsnum \<Rightarrow> jsdate" where
  "TimeClip n =
     (case n of
        Fin r \<Rightarrow>
          if \<bar>r\<bar> \<le> 8640000000000000 then Date (if 0 \<le> r then \<lfloor>r\<rfloor> else \<lceil>r\<rceil>)
          else InvalidDate
      | _ \<Rightarrow> InvalidDate)"

text \<open>
  \<open>new Date(v)\<close>. A string goes through \<open>Date.parse\<close>, whose result on text that is
  not in the ISO format is left to the JavaScript engine: it is the parameter \<open>parse\<close>.
  Every other value is converted to a number and clipped.
\<close>

definition newDate :: "(string \<Rightarrow> jsdate) \<Rightarrow> jsval \<Rightarrow> jsdate" where
  "newDate parse v = (case v of JStr s \<Rightarrow> parse s | _ \<Rightarrow> TimeClip (toNumber v))"

text \<open>Days from 1970-01-01 to the first day of a year, and to a calendar day.\<close>

definition DayFromYear :: "int \<Rightarrow> int" where
  "DayFromYear y =
     365 * (y - 1970) + (y - 1969) div 4 - (y - 1901) div 100 + (y - 1601) div 400"

definition isLeapYear :: "int \<Rightarrow> bool" where
  "isLeapYear y = (y mod 4 = 0 \<and> (y mod 100 \<noteq> 0 \<or> y mod 400 = 0))"

definition daysBeforeMonth :: "int \<Rightarrow> int \<Rightarrow> int" where
  "daysBeforeMonth y m =
     [0, 31, 59, 90, 120, 151, 181, 212, 243, 273, 304, 334] ! nat (m - 1)
     + (if isLeapYear y \<and> 2 < m then 1 else 0)"

definition msPerDay :: int where
  "msPerDay = 86400000"

text \<open>
  \<open>new Date('YYYY-MM-DD')\<close> on ten characters of that shape: midnight UTC of the day.
  The month must be 1 to 12 and the day 1 to 31; a day past the end of the month runs
  into the next month, as the V8 engine of Node.js has it.
\<close>

definition isoDateOnly :: "string \<Rightarrow> jsdate" where
  "isoDateOnly s =
     (let y = take 4 s; m = take 2 (drop 5 s); d = take 2 (drop 8 s) in
      if length s = 10 \<and> allDigitsOf 10 y \<and> allDigitsOf 10 m \<and> allDigitsOf 10 d
         \<and> s ! 4 = CHR ''-'' \<and> s ! 7 = CHR ''-''
         \<and> 1 \<le> digitsVal 10 m \<and> digitsVal 10 m \<le> 12
         \<and> 1 \<le> digitsVal 10 d \<and> digitsVal 10 d \<le> 31
      then Date ((DayFromYear (digitsVal 10 y)
                  + daysBeforeMonth (digitsVal 10 y) (digitsVal 10 m)
                  + digitsVal 10 d - 1) * msPerDay)
      else InvalidDate)"

text \<open>The two date literals of the source: \<open>new Date('2020-11-01')\<close> and the ARGO epoch.\<close>

definition defaultDate :: jsdate where
  "defaultDate = isoDateOnly ''2020-11-01''"

definition argoEpochMs :: int where
  "argoEpochMs = DayFromYear 1950 * msPerDay"

text \<open>
  \<open>extractDateFromFilename\<close>: the first place where eight digits are followed by
  \<open>_prof.csv\<close> (the regular expression is not anchored).
\<close>

fun matchProfToken :: "string \<Rightarrow> string option" where
  "matchProfToken [] = None"
| "matchProfToken (c # cs) =
     (if length (take 8 (c # cs)) = 8 \<and> list_all isDigit (take 8 (c # cs))
         \<and> take 9 (drop 8 (c # cs)) = ''_prof.csv''
      then Some (take 8 (c # cs))
      else matchProfToken cs)"

definition extractDateFromFilename :: "string \<Rightarrow> jsdate" where
  "extractDateFromFilename filename =
     (case matchProfToken filename of
        Some dateStr \<Rightarrow>
          isoDateOnly (take 4 dateStr @ ''-'' @ take 2 (drop 4 dateStr) @ ''-'' @ take 2 (drop 6 dateStr))
      | None \<Rightarrow> defaultDate)"

text \<open>Rows: a row maps column names to cells; a column that is absent reads as undefined.\<close>

type_synonym row = "(string \<times> jsval) list"

definition field :: "row \<Rightarrow> string \<Rightarrow> jsval" where
  "field r k = (case map_of r k of None \<Rightarrow> JUndefined | Some v \<Rightarrow> v)"

text \<open>\<open>extractDate\<close> of the database loader.\<close>

definition dateField :: "row \<Rightarrow> jsval" where
  "dateField r =
     js_or (field r ''JULD'') (js_or (field r ''juld'') (js_or (field r ''DATE'')
       (js_or (field r ''date'') (field r ''REFERENCE_DATE_TIME''))))"

definition isNumber :: "jsval \<Rightarrow> bool" where
  "isNumber v = (case v of JNum n \<Rightarrow> True | _ \<Rightarrow> False)"

definition extractDate :: "(string \<Rightarrow> jsdate) \<Rightarrow> row \<Rightarrow> jsdate" where
  "extractDate parse r =
     (let dateStr = dateField r in
      if \<not> truthy dateStr then defaultDate
      else
        let date0 = newDate parse dateStr;
            date1 =
              (if date0 = InvalidDate \<and> isNumber dateStr then
                 TimeClip (num_add (Fin (real_of_int argoEpochMs))
                   (num_mul (num_mul (num_mul (num_mul (toNumber dateStr) (Fin 24)) (Fin 60)) (Fin 60)) (Fin 1000)))
               else date0)
        in if date1 = InvalidDate then defaultDate else date1)"

text \<open>
  What the specification says of a Julian-day input: the ARGO epoch plus \<open>d\<close> days.
\<close>

definition spec_julianDate :: "int \<Rightarrow> jsdate" where
  "spec_julianDate d = Date (argoEpochMs + d * msPerDay)"

section \<open>Strings of values, property keys and plain objects\<close>

function natToString :: "int \<Rightarrow> string" where
  "natToString n =
     (if n < 10 then [''0123456789'' ! nat n]
      else natToString (n div 10) @ [''0123456789'' ! nat (n mod 10)])"
  by pat_completeness auto
termination
  by (relation "measure nat") auto

declare natToString.simps [simp del]

text \<open>
  \<open>natToString\<close> writes a natural number (an integer that is not negative) in
  decimal digits. \<open>String(n)\<close> on a number: an integral value below 1e21 in magnitude is written in
  decimal digits, with its sign; the text of any other finite value is the shortest decimal that reads
  back as the same double, which the real number alone does not determine: it is the
  parameter \<open>fmt\<close>.
\<close>

definition numToString :: "(real \<Rightarrow> string) \<Rightarrow> jsnum \<Rightarrow> string" where
  "numToString fmt n =
     (case n of
        NaN \<Rightarrow> ''NaN''
      | PosInf \<Rightarrow> ''Infinity''
      | NegInf \<Rightarrow> ''-Infinity''
      | Fin r \<Rightarrow>
          if r = real_of_int \<lfloor>r\<rfloor> \<and> \<bar>r\<bar> < 10 ^ 21 then
            (if r < 0 then CHR ''-'' # natToString (- \<lfloor>r\<rfloor>) else natToString \<lfloor>r\<rfloor>)
          else fmt r)"

definition toStr :: "(real \<Rightarrow> string) \<Rightarrow> jsval \<Rightarrow> string" where
  "toStr fmt v =
     (case v of
        JUndefined \<Rightarrow> ''undefined''
      | JNull \<Rightarrow> ''null''
      | JBool b \<Rightarrow> (if b then ''true'' else ''false'')
      | JNum n \<Rightarrow> numToString fmt n
      | JStr s \<Rightarrow> s)"

definition padStart :: "string \<Rightarrow> nat \<Rightarrow> char \<Rightarrow> string" where
  "padStart s n c = replicate (n - length s) c @ s"

definition endsWith :: "string \<Rightarrow> string \<Rightarrow> bool" where
  "endsWith s suffix = (length suffix \<le> length s \<and> drop (length s - length suffix) s = suffix)"

text \<open>
  A plain object literal \<open>{}\<close> used as a dictionary. Its own properties are kept in
  creation order. A key that is not an own property is still found when
  \<open>Object.prototype\<close> has it: the lookup then yields a function (or, for
  \<open>__proto__\<close>, the prototype object), which is truthy and is not an array.
\<close>

type_synonym 'a jsobject = "(string \<times> 'a) list"

datatype 'a property = Own 'a | Inherited | Absent

definition objectPrototypeKeys :: "string list" where
  "objectPrototypeKeys =
     [''constructor'', ''__defineGetter__'', ''__defineSetter__'', ''hasOwnProperty'',
      ''__lookupGetter__'', ''__lookupSetter__'', ''isPrototypeOf'', ''propertyIsEnumerable'',
      ''toString'', ''valueOf'', ''__proto__'', ''toLocaleString'']"

definition getProp :: "'a jsobject \<Rightarrow> string \<Rightarrow> 'a property" where
  "getProp obj k =
     (case map_of obj k of
        Some v \<Rightarrow> Own v
      | None \<Rightarrow> if List.member objectPrototypeKeys k then Inherited else Absent)"

fun setProp :: "'a jsobject \<Rightarrow> string \<Rightarrow> 'a \<Rightarrow> 'a jsobject" where
  "setProp [] k v = [(k, v)]"
| "setProp ((k', v') # kvs) k v = (if k' = k then (k, v) # kvs else (k', v') # setProp kvs k v)"

text \<open>
  The order in which \<open>Object.entries\<close> and \<open>for ... in\<close> visit the own properties:
  the keys that are array indices (canonical decimal integers below \<open>2^32 - 1\<close>) in
  ascending numeric order, then the other keys in creation order.
\<close>

definition arrayIndex :: "string \<Rightarrow> int option" where
  "arrayIndex s =
     (if allDigitsOf 10 s \<and> (s = ''0'' \<or> hd s \<noteq> CHR ''0'') \<and> digitsVal 10 s < 4294967295
      then Some (digitsVal 10 s) else None)"

definition ownEntries :: "'a jsobject \<Rightarrow> (string \<times> 'a) list" where
  "ownEntries obj =
     sort_key (\<lambda>kv. case arrayIndex (fst kv) of Some n \<Rightarrow> n | None \<Rightarrow> 0)
       (filter (\<lambda>kv. arrayIndex (fst kv) \<noteq> None) obj)
     @ filter (\<lambda>kv. arrayIndex (fst kv) = None) obj"

datatype error = TypeError

section \<open>Grouping rows by profile\<close>

text \<open>
  \<open>groupByProfile\<close> (the same text in the in-memory server and in the database loader).
  A profile key that names a property of \<open>Object.prototype\<close> finds a value without
  \<open>push\<close>, and the call throws.
\<close>

definition profileKey :: "row \<Rightarrow> jsval" where
  "profileKey r = js_or (field r ''PROFILE'') (js_or (field r ''profile'') (JNum (Fin 0)))"

fun groupByProfile_loop :: "(real \<Rightarrow> string) \<Rightarrow> (row list) jsobject \<Rightarrow> row list \<Rightarrow> error + (row list) jsobject" where
  "groupByProfile_loop fmt groups [] = Inr groups"
| "groupByProfile_loop fmt groups (r # rs) =
     (let profileId = toStr fmt (profileKey r) in
      case getProp groups profileId of
        Own g \<Rightarrow> groupByProfile_loop fmt (setProp groups profileId (g @ [r])) rs
      | Absent \<Rightarrow> groupByProfile_loop fmt (setProp groups profileId [r]) rs
      | Inherited \<Rightarrow> Inl TypeError)"

definition groupByProfile :: "(real \<Rightarrow> string) \<Rightarrow> row list \<Rightarrow> error + (row list) jsobject" where
  "groupByProfile fmt data = groupByProfile_loop fmt [] data"

section \<open>The in-memory server\<close>

record floatRecord =
  float_id :: jsval
  wmo_number :: jsval
  last_position_lat :: jsnum
  last_position_lon :: jsnum
  status :: string
  platform_type :: string
  last_profile_date :: jsdate

record measurement =
  pressure :: jsnum
  temperature :: jsnum
  salinity :: "jsnum option"
  depth :: jsnum
  quality_flag :: string

record profileEntry =
  profile_id :: string
  date :: jsdate
  measurements :: "measurement list"

record store =
  FLOAT_DATA :: "floatRecord list"
  MEASUREMENTS_DATA :: "(profileEntry list) jsobject"

definition emptyStore :: store where
  "emptyStore = \<lparr>FLOAT_DATA = [], MEASUREMENTS_DATA = []\<rparr>"

text \<open>The measurements of a row group: the \<open>filter\<close> and \<open>map\<close> of \<open>loadCSVData\<close>.\<close>

definition rowPasses :: "row \<Rightarrow> bool" where
  "rowPasses r = (isValidValue (field r ''PRES'') \<and> isValidValue (field r ''TEMP''))"

definition measurementOfRow :: "row \<Rightarrow> measurement" where
  "measurementOfRow r =
     \<lparr>pressure = toNumber (field r ''PRES''),
      temperature = toNumber (field r ''TEMP''),
      salinity = (if isValidValue (field r ''PSAL'') then Some (toNumber (field r ''PSAL'')) else None),
      depth = num_mul (toNumber (field r ''PRES'')) (Fin 1.019716),
      quality_flag = ''1''\<rparr>"

definition buildMeasurements :: "row list \<Rightarrow> measurement list" where
  "buildMeasurements profileData = map measurementOfRow (filter rowPasses profileData)"

text \<open>The coordinate of the representative row: a number, or null.\<close>

definition sampleCoordinate :: "row \<Rightarrow> string \<Rightarrow> string \<Rightarrow> jsnum option" where
  "sampleCoordinate sample upper lower =
     (if isValidValue (field sample upper) then Some (toNumber (field sample upper))
      else if isValidValue (field sample lower) then Some (toNumber (field sample lower))
      else None)"

definition sampleFloatId :: "row \<Rightarrow> jsval \<Rightarrow> jsval" where
  "sampleFloatId sample fallback =
     js_or (field sample ''PLATFORM_NUMBER'') (js_or (field sample ''platform_number'')
       (js_or (field sample ''FLOAT_ID'') (js_or (field sample ''float_id'') fallback)))"

text \<open>
  The body of the \<open>forEach\<close> over the groups of one file, in two parts: what it does
  once the coordinates are accepted (\<open>recordProfile\<close>), and the whole body
  (\<open>processGroup\<close>). It returns the store as the body leaves it, and the exception when
  the body throws: what was written before the throw stays written.
\<close>

definition recordProfile :: "(real \<Rightarrow> string) \<Rightarrow> jsdate \<Rightarrow> store \<Rightarrow> string \<Rightarrow> row list \<Rightarrow> jsval \<Rightarrow> jsnum \<Rightarrow> jsnum \<Rightarrow> error option \<times> store" where
  "recordProfile fmt fileDate st profileId profileData floatId lat lon =
     (let floats =
            (if list_ex (\<lambda>f. strictEq (float_id f) floatId) (FLOAT_DATA st)
             then FLOAT_DATA st
             else FLOAT_DATA st @
               [\<lparr>float_id = floatId, wmo_number = floatId,
                 last_position_lat = lat, last_position_lon = lon,
                 status = ''active'', platform_type = ''ARGO_FLOAT'',
                 last_profile_date = fileDate\<rparr>]);
          key = toStr fmt floatId;
          entry = \<lparr>profile_id = toStr fmt floatId @ ''_'' @ profileId,
                   date = fileDate,
                   measurements = buildMeasurements profileData\<rparr>
      in case getProp (MEASUREMENTS_DATA st) key of
           Own ps \<Rightarrow>
             (None, \<lparr>FLOAT_DATA = floats,
                     MEASUREMENTS_DATA = setProp (MEASUREMENTS_DATA st) key (ps @ [entry])\<rparr>)
         | Absent \<Rightarrow>
             (None, \<lparr>FLOAT_DATA = floats,
                     MEASUREMENTS_DATA = setProp (MEASUREMENTS_DATA st) key [entry]\<rparr>)
         | Inherited \<Rightarrow>
             (Some TypeError, \<lparr>FLOAT_DATA = floats, MEASUREMENTS_DATA = MEASUREMENTS_DATA st\<rparr>))"

definition processGroup :: "(real \<Rightarrow> string) \<Rightarrow> jsdate \<Rightarrow> store \<Rightarrow> string \<times> row list \<Rightarrow> error option \<times> store" where
  "processGroup fmt fileDate st entry =
     (case snd entry of
        [] \<Rightarrow> (Some TypeError, st)
      | sample # rest \<Rightarrow>
          (let profileId = fst entry;
               floatId = sampleFloatId sample (JStr (''2901'' @ padStart profileId 3 (CHR ''0'')));
               lat = sampleCoordinate sample ''LATITUDE'' ''latitude'';
               lon = sampleCoordinate sample ''LONGITUDE'' ''longitude''
           in (case lat of
                 None \<Rightarrow> (None, st)
               | Some la \<Rightarrow>
                   (case lon of
                      None \<Rightarrow> (None, st)
                    | Some lo \<Rightarrow>
                        (if \<not> isValidCoordinate (JNum la) \<or> \<not> isValidCoordinate (JNum lo)
                         then (None, st)
                         else recordProfile fmt fileDate st profileId (snd entry) floatId la lo)))))"

fun forEachGroup :: "(real \<Rightarrow> string) \<Rightarrow> jsdate \<Rightarrow> store \<Rightarrow> (string \<times> row list) list \<Rightarrow> error option \<times> store" where
  "forEachGroup fmt fileDate st [] = (None, st)"
| "forEachGroup fmt fileDate st (g # gs) =
     (let r = processGroup fmt fileDate st g in
      if fst r = None then forEachGroup fmt fileDate (snd r) gs else r)"

text \<open>
  One file of the directory: its name and what reading and parsing it gives. The
  \<open>try\<close> around a file catches whatever is thrown and goes on to the next file.
\<close>

datatype content = Unreadable | Parsed "row list"

definition loadFile :: "(real \<Rightarrow> string) \<Rightarrow> store \<Rightarrow> string \<times> content \<Rightarrow> store" where
  "loadFile fmt st file =
     (case snd file of
        Unreadable \<Rightarrow> st
      | Parsed data \<Rightarrow>
          (case groupByProfile fmt data of
             Inl e \<Rightarrow> st
           | Inr profiles \<Rightarrow>
               (snd (forEachGroup fmt (extractDateFromFilename (fst file)) st (ownEntries profiles)))))"

definition profFiles :: "(string \<times> content) list \<Rightarrow> (string \<times> content) list" where
  "profFiles dir = sort_key fst (filter (\<lambda>file. endsWith (fst file) ''_prof.csv'') dir)"

definition loadCSVData :: "(real \<Rightarrow> string) \<Rightarrow> (string \<times> content) list \<Rightarrow> store" where
  "loadCSVData fmt dir = foldl (loadFile fmt) emptyStore (profFiles dir)"

subsection \<open>Queries of the in-memory server\<close>

text \<open>\<open>inBbox\<close>: a missing corner reads as undefined, whose number is NaN.\<close>

definition nthNum :: "jsnum list \<Rightarrow> nat \<Rightarrow> jsnum" where
  "nthNum xs i = (if i < length xs then xs ! i else NaN)"

definition inBbox :: "floatRecord \<Rightarrow> jsnum list option \<Rightarrow> bool" where
  "inBbox item bbox =
     (case bbox of
        None \<Rightarrow> True
      | Some b \<Rightarrow>
          (let lat1 = nthNum b 0; lon1 = nthNum b 1; lat2 = nthNum b 2; lon2 = nthNum b 3;
               minLat = Math_min lat1 lat2; maxLat = Math_max lat1 lat2;
               minLon = Math_min lon1 lon2; maxLon = Math_max lon1 lon2
           in num_ge (last_position_lat item) minLat \<and> num_le (last_position_lat item) maxLat \<and>
              num_ge (last_position_lon item) minLon \<and> num_le (last_position_lon item) maxLon))"

text \<open>\<open>s.split(c)\<close> for a one-character separator.\<close>

fun splitOn :: "char \<Rightarrow> string \<Rightarrow> string list" where
  "splitOn c [] = [[]]"
| "splitOn c (x # xs) =
     (if x = c then [] # splitOn c xs
      else (case splitOn c xs of [] \<Rightarrow> [[x]] | w # ws \<Rightarrow> (x # w) # ws))"

text \<open>The relational operators on two \<open>Date\<close> objects: false when one is invalid.\<close>

definition date_le :: "jsdate \<Rightarrow> jsdate \<Rightarrow> bool" where
  "date_le a b = (case a of InvalidDate \<Rightarrow> False | Date x \<Rightarrow> (case b of InvalidDate \<Rightarrow> False | Date y \<Rightarrow> x \<le> y))"

text \<open>
  The handler of \<open>GET /api/floats\<close>. A query parameter is a string when present; an
  empty string is falsy and counts as absent.
\<close>

definition queryParam :: "string option \<Rightarrow> string option" where
  "queryParam q = (case q of None \<Rightarrow> None | Some s \<Rightarrow> if s = [] then None else Some s)"

definition listFloats :: "(string \<Rightarrow> jsdate) \<Rightarrow> string option \<Rightarrow> string option \<Rightarrow> string option \<Rightarrow> store \<Rightarrow> floatRecord list" where
  "listFloats parse status_q bbox_q date_range_q st =
     (let bboxArr = map_option (\<lambda>s. map StringToNumber (splitOn (CHR '','') s)) (queryParam bbox_q);
          rangeArr = map_option (splitOn (CHR '','')) (queryParam date_range_q);
          results0 = FLOAT_DATA st;
          results1 = (case queryParam status_q of
                        None \<Rightarrow> results0
                      | Some s \<Rightarrow> filter (\<lambda>f. status f = s) results0);
          results2 = (case bboxArr of
                        None \<Rightarrow> results1
                      | Some b \<Rightarrow> if length b = 4 then filter (\<lambda>f. inBbox f (Some b)) results1 else results1)
      in case rangeArr of
           None \<Rightarrow> results2
         | Some r \<Rightarrow>
             if length r = 2 then
               filter (\<lambda>f. date_le (parse (r ! 0)) (last_profile_date f)
                           \<and> date_le (last_profile_date f) (parse (r ! 1))) results2
             else results2)"

text \<open>
  \<open>parseInt(s)\<close> without a radix: leading white space, a sign, an optional \<open>0x\<close>,
  then the longest run of digits; NaN when there is none. The argument of the source is
  the second piece of a split, undefined when there is no second piece.
\<close>

definition isDigitOf :: "nat \<Rightarrow> char \<Rightarrow> bool" where
  "isDigitOf base c = (case hexDigitOf c of None \<Rightarrow> False | Some d \<Rightarrow> d < base)"

definition parseIntDigits :: "nat \<Rightarrow> string \<Rightarrow> jsnum" where
  "parseIntDigits base s =
     (if takeWhile (isDigitOf base) s = [] then NaN
      else Fin (real_of_int (digitsVal base (takeWhile (isDigitOf base) s))))"

definition parseIntUnsigned :: "string \<Rightarrow> jsnum" where
  "parseIntUnsigned s =
     (if take 2 s = ''0x'' \<or> take 2 s = ''0X'' then parseIntDigits 16 (drop 2 s)
      else parseIntDigits 10 s)"

definition parseInt :: "string option \<Rightarrow> jsnum" where
  "parseInt arg =
     (case arg of
        None \<Rightarrow> NaN
      | Some s0 \<Rightarrow>
          (let s = dropWhile isWhiteSpace s0 in
           if s \<noteq> [] \<and> hd s = CHR ''-'' then num_neg (parseIntUnsigned (tl s))
           else if s \<noteq> [] \<and> hd s = CHR ''+'' then parseIntUnsigned (tl s)
           else parseIntUnsigned s))"

definition secondPiece :: "string list \<Rightarrow> string option" where
  "secondPiece ws = (if 1 < length ws then Some (ws ! 1) else None)"

text \<open>
  \<open>FLOAT_DATA.find(f => f.float_id === floatId)?.last_position_lat || 0\<close>, with the
  identifier of the request, a string.
\<close>

definition positionOrZero :: "(floatRecord \<Rightarrow> jsnum) \<Rightarrow> floatRecord list \<Rightarrow> string \<Rightarrow> jsnum" where
  "positionOrZero sel floats floatId =
     (case find (\<lambda>f. strictEq (float_id f) (JStr floatId)) floats of
        None \<Rightarrow> Fin 0
      | Some f \<Rightarrow> if truthy (JNum (sel f)) then sel f else Fin 0)"

record profileView =
  pv_id :: string
  pv_date :: jsdate
  pv_latitude :: jsnum
  pv_longitude :: jsnum
  pv_cycle_number :: jsnum

record trajectoryPoint =
  tp_timestamp :: jsdate
  tp_latitude :: jsnum
  tp_longitude :: jsnum

text \<open>
  The handlers of \<open>GET /api/floats/:floatId/profiles\<close> and of
  \<open>GET /api/floats/:floatId/trajectory\<close>. \<open>MEASUREMENTS_DATA[floatId] || []\<close> is the
  stored array, the empty array for a key that is not found, and for a key of
  \<open>Object.prototype\<close> a value without \<open>map\<close>: the call throws.
\<close>

definition profilesForFloat :: "store \<Rightarrow> string \<Rightarrow> error + string \<times> profileView list" where
  "profilesForFloat st floatId =
     (case getProp (MEASUREMENTS_DATA st) floatId of
        Inherited \<Rightarrow> Inl TypeError
      | Absent \<Rightarrow> Inr (floatId, [])
      | Own floatData \<Rightarrow>
          Inr (floatId,
               map (\<lambda>p. \<lparr>pv_id = profile_id p, pv_date = date p,
                          pv_latitude = positionOrZero last_position_lat (FLOAT_DATA st) floatId,
                          pv_longitude = positionOrZero last_position_lon (FLOAT_DATA st) floatId,
                          pv_cycle_number =
                            num_add (parseInt (secondPiece (splitOn (CHR ''_'') (profile_id p)))) (Fin 1)\<rparr>)
                   floatData))"

definition trajectoryForFloat :: "store \<Rightarrow> string \<Rightarrow> error + string \<times> trajectoryPoint list" where
  "trajectoryForFloat st floatId =
     (case getProp (MEASUREMENTS_DATA st) floatId of
        Inherited \<Rightarrow> Inl TypeError
      | Absent \<Rightarrow> Inr (floatId, [])
      | Own floatData \<Rightarrow>
          Inr (floatId,
               map (\<lambda>p. \<lparr>tp_timestamp = date p,
                          tp_latitude = positionOrZero last_position_lat (FLOAT_DATA st) floatId,
                          tp_longitude = positionOrZero last_position_lon (FLOAT_DATA st) floatId\<rparr>)
                   floatData))"

text \<open>
  The handler of \<open>GET /api/profiles/:profileId/measurements\<close>: the \<open>for ... in\<close> loop
  over the own keys stops at the first float that has a profile of that identifier.
\<close>

fun findMeasurements :: "(string \<times> profileEntry list) list \<Rightarrow> string \<Rightarrow> measurement list" where
  "findMeasurements [] profileId = []"
| "findMeasurements (kv # kvs) profileId =
     (case find (\<lambda>p. profile_id p = profileId) (snd kv) of
        Some profile \<Rightarrow> measurements profile
      | None \<Rightarrow> findMeasurements kvs profileId)"

definition measurementsForProfile :: "store \<Rightarrow> string \<Rightarrow> error + string \<times> measurement list" where
  "measurementsForProfile st profileId =
     Inr (profileId, findMeasurements (ownEntries (MEASUREMENTS_DATA st)) profileId)"

text \<open>The handler of \<open>GET /api/export/csv/:floatId\<close>; it does not read the store.\<close>

definition exportCsv :: "string \<Rightarrow> string" where
  "exportCsv floatId =
     ''float_id,profile_id,pressure,temperature,salinity'' @ [CHR 0x0A]
     @ floatId @ '',1,0,28.1,35.2'' @ [CHR 0x0A] @ floatId @ '',1,50,27.6,35.1''"

text \<open>
  The terms of the export contract: the lines of a document, and the measurements that
  the store holds for the profiles of a float.
\<close>

definition documentLines :: "string \<Rightarrow> string list" where
  "documentLines doc = splitOn (CHR 0x0A) doc"

definition measurementsOfFloat :: "store \<Rightarrow> string \<Rightarrow> measurement list" where
  "measurementsOfFloat st floatId =
     (case map_of (MEASUREMENTS_DATA st) floatId of
        None \<Rightarrow> []
      | Some ps \<Rightarrow> concat (map measurements ps))"

section \<open>The database loader\<close>

text \<open>
  The class \<open>ArgoCsvProcessor\<close>. The database client is outside the repository: the
  model keeps the three tables the loader writes, with the values the loader passes, and
  takes every write to be accepted. A coordinate is stored as the loader passes it, a
  cell of the row or a number of the float's metadata.
\<close>

record positionEntry =
  pos_date :: jsdate
  pos_latitude :: jsnum
  pos_longitude :: jsnum

record metaProfile =
  mp_date :: jsdate
  mp_profile_id :: string
  mp_latitude :: jsnum
  mp_longitude :: jsnum
  mp_cycle_number :: jsval

record floatMeta =
  fm_float_id :: string
  fm_wmo_number :: string
  positions :: "positionEntry list"
  profiles :: "metaProfile list"
  fm_status :: string

record dbFloat =
  db_float_id :: string
  db_wmo_number :: string
  db_last_position_lat :: jsval
  db_last_position_lon :: jsval
  db_deployment_date :: jsdate
  db_status :: string
  db_platform_type :: string

record dbProfile =
  dp_id :: nat
  dp_float_id :: string
  dp_profile_date :: jsdate
  dp_cycle_number :: jsval
  dp_latitude :: jsval
  dp_longitude :: jsval
  dp_profile_direction :: string

record dbMeasurement =
  dm_profile_id :: nat
  dm_pressure :: jsnum
  dm_temperature :: jsnum
  dm_salinity :: "jsnum option"
  dm_depth :: jsnum
  dm_quality_flag :: string

text \<open>\<open>profile_seq\<close> is the last value of the serial that numbers the profiles.\<close>

record database =
  argo_floats :: "dbFloat list"
  argo_profiles :: "dbProfile list"
  argo_measurements :: "dbMeasurement list"
  profile_seq :: nat

text \<open>\<open>path.basename\<close>: trailing separators are dropped, then the last segment is taken.\<close>

definition basename :: "string \<Rightarrow> string" where
  "basename p =
     rev (takeWhile (\<lambda>c. c \<noteq> CHR ''/'') (dropWhile (\<lambda>c. c = CHR ''/'') (rev p)))"

definition cycleNumberOf :: "row \<Rightarrow> jsval" where
  "cycleNumberOf sample = js_or (field sample ''CYCLE_NUMBER'') (js_or (field sample ''cycle_number'') (JNum (Fin 0)))"

text \<open>
  \<open>extractFloatMetadata\<close>: the body of the loop over the groups of one file, the loop,
  and the \<open>try\<close> around one file.
\<close>

definition metadataGroup :: "(real \<Rightarrow> string) \<Rightarrow> jsdate \<Rightarrow> floatMeta jsobject \<Rightarrow> string \<times> row list \<Rightarrow> error option \<times> floatMeta jsobject" where
  "metadataGroup fmt fileDate floatData entry =
     (case snd entry of
        [] \<Rightarrow> (Some TypeError, floatData)
      | sample # rest \<Rightarrow>
          (let profileId = fst entry;
               lat = js_or (field sample ''LATITUDE'') (field sample ''latitude'');
               lon = js_or (field sample ''LONGITUDE'') (field sample ''longitude'');
               floatId = sampleFloatId sample (JStr profileId);
               key = toStr fmt floatId;
               position = \<lparr>pos_date = fileDate, pos_latitude = toNumber lat, pos_longitude = toNumber lon\<rparr>;
               profile = \<lparr>mp_date = fileDate, mp_profile_id = profileId,
                           mp_latitude = toNumber lat, mp_longitude = toNumber lon,
                           mp_cycle_number = cycleNumberOf sample\<rparr>
           in if truthy lat \<and> truthy lon \<and> ArgoCsvProcessor_isValidCoordinate lat
                 \<and> ArgoCsvProcessor_isValidCoordinate lon
              then (case getProp floatData key of
                      Inherited \<Rightarrow> (Some TypeError, floatData)
                    | Absent \<Rightarrow>
                        (None, setProp floatData key
                           \<lparr>fm_float_id = toStr fmt floatId, fm_wmo_number = toStr fmt floatId,
                            positions = [position], profiles = [profile], fm_status = ''active''\<rparr>)
                    | Own m \<Rightarrow>
                        (None, setProp floatData key
                           (m\<lparr>positions := positions m @ [position], profiles := profiles m @ [profile]\<rparr>)))
              else (None, floatData)))"

fun metadataGroups :: "(real \<Rightarrow> string) \<Rightarrow> jsdate \<Rightarrow> floatMeta jsobject \<Rightarrow> (string \<times> row list) list \<Rightarrow> error option \<times> floatMeta jsobject" where
  "metadataGroups fmt fileDate floatData [] = (None, floatData)"
| "metadataGroups fmt fileDate floatData (g # gs) =
     (let r = metadataGroup fmt fileDate floatData g in
      if fst r = None then metadataGroups fmt fileDate (snd r) gs else r)"

definition metadataFile :: "(real \<Rightarrow> string) \<Rightarrow> floatMeta jsobject \<Rightarrow> string \<times> content \<Rightarrow> floatMeta jsobject" where
  "metadataFile fmt floatData file =
     (case snd file of
        Unreadable \<Rightarrow> floatData
      | Parsed data \<Rightarrow>
          (case groupByProfile fmt data of
             Inl e \<Rightarrow> floatData
           | Inr groups \<Rightarrow>
               (snd (metadataGroups fmt (extractDateFromFilename (fst file)) floatData (ownEntries groups)))))"

definition extractFloatMetadata :: "(real \<Rightarrow> string) \<Rightarrow> (string \<times> content) list \<Rightarrow> floatMeta jsobject" where
  "extractFloatMetadata fmt files = foldl (metadataFile fmt) [] files"

text \<open>\<open>upsertFloat\<close>, \<open>insertProfile\<close> and \<open>insertMeasurements\<close>.\<close>

fun upsertRow :: "dbFloat list \<Rightarrow> string \<Rightarrow> jsval \<Rightarrow> jsval \<Rightarrow> dbFloat list" where
  "upsertRow [] fid lat lon =
     [\<lparr>db_float_id = fid, db_wmo_number = fid,
       db_last_position_lat = lat, db_last_position_lon = lon,
       db_deployment_date = defaultDate, db_status = ''active'', db_platform_type = ''ARGO_FLOAT''\<rparr>]"
| "upsertRow (f # fs) fid lat lon =
     (if db_float_id f = fid
      then f\<lparr>db_last_position_lat := lat, db_last_position_lon := lon\<rparr> # fs
      else f # upsertRow fs fid lat lon)"

definition upsertFloat :: "database \<Rightarrow> string \<Rightarrow> jsval \<times> jsval \<Rightarrow> database" where
  "upsertFloat db floatId position =
     db\<lparr>argo_floats := upsertRow (argo_floats db) floatId (fst position) (snd position)\<rparr>"

definition insertProfile :: "database \<Rightarrow> string \<Rightarrow> jsval \<Rightarrow> jsval \<Rightarrow> jsval \<Rightarrow> jsdate \<Rightarrow> dbProfile \<times> database" where
  "insertProfile db floatId lat lon cycleNumber profileDate =
     (let profile = \<lparr>dp_id = Suc (profile_seq db), dp_float_id = floatId,
                      dp_profile_date = profileDate, dp_cycle_number = cycleNumber,
                      dp_latitude = lat, dp_longitude = lon, dp_profile_direction = ''A''\<rparr>
      in (profile, db\<lparr>argo_profiles := argo_profiles db @ [profile], profile_seq := Suc (profile_seq db)\<rparr>))"

definition measurementRow :: "nat \<Rightarrow> row \<Rightarrow> dbMeasurement" where
  "measurementRow profileId r =
     \<lparr>dm_profile_id = profileId,
      dm_pressure = toNumber (field r ''PRES''),
      dm_temperature = toNumber (field r ''TEMP''),
      dm_salinity = (if ArgoCsvProcessor_isValidValue (field r ''PSAL'')
                     then Some (toNumber (field r ''PSAL'')) else None),
      dm_depth = pressureToDepth (toNumber (field r ''PRES'')),
      dm_quality_flag = ''1''\<rparr>"

fun validMeasurements :: "nat \<Rightarrow> dbMeasurement list \<Rightarrow> row list \<Rightarrow> dbMeasurement list" where
  "validMeasurements profileId acc [] = acc"
| "validMeasurements profileId acc (r # rs) =
     (if ArgoCsvProcessor_isValidValue (field r ''PRES'') \<and> ArgoCsvProcessor_isValidValue (field r ''TEMP'')
      then validMeasurements profileId (acc @ [measurementRow profileId r]) rs
      else validMeasurements profileId acc rs)"

definition insertMeasurements :: "database \<Rightarrow> nat \<Rightarrow> row list \<Rightarrow> database" where
  "insertMeasurements db profileId rows =
     (let valid = validMeasurements profileId [] rows in
      if 0 < length valid then db\<lparr>argo_measurements := argo_measurements db @ valid\<rparr> else db)"

text \<open>
  \<open>processProfileData\<close>. The outcome of the coordinate lookup is the pair the loader
  goes on with, nothing when the group is skipped, or the exception that the
  \<open>try\<close> of the function catches (the group is dropped then, too).
\<close>

definition coordinateBad :: "jsval \<Rightarrow> jsval \<Rightarrow> bool" where
  "coordinateBad lat lon =
     (\<not> truthy lat \<or> \<not> truthy lon \<or> \<not> ArgoCsvProcessor_isValidCoordinate lat
      \<or> \<not> ArgoCsvProcessor_isValidCoordinate lon)"

definition fallbackPosition :: "floatMeta jsobject \<Rightarrow> string \<Rightarrow> jsval \<Rightarrow> jsval \<Rightarrow> error + jsval \<times> jsval" where
  "fallbackPosition floatMetadata key lat lon =
     (if coordinateBad lat lon then
        (case getProp floatMetadata key of
           Absent \<Rightarrow> Inr (lat, lon)
         | Inherited \<Rightarrow> Inl TypeError
         | Own metadata \<Rightarrow>
             (case positions metadata of
                [] \<Rightarrow> Inr (lat, lon)
              | p # ps \<Rightarrow>
                  Inr (js_or lat (JNum (pos_latitude (last (positions metadata)))),
                       js_or lon (JNum (pos_longitude (last (positions metadata)))))))
      else Inr (lat, lon))"

definition processProfileData :: "(real \<Rightarrow> string) \<Rightarrow> database \<Rightarrow> string \<Rightarrow> row list \<Rightarrow> floatMeta jsobject \<Rightarrow> database" where
  "processProfileData fmt db profileId profileData floatMetadata =
     (case profileData of
        [] \<Rightarrow> db
      | sample # rest \<Rightarrow>
          (let floatId = sampleFloatId sample (JStr profileId);
               lat0 = js_or (field sample ''LATITUDE'') (js_or (field sample ''latitude'') JNull);
               lon0 = js_or (field sample ''LONGITUDE'') (js_or (field sample ''longitude'') JNull);
               cycleNumber = cycleNumberOf sample;
               profileDate = extractDateFromFilename (basename profileId)
           in case fallbackPosition floatMetadata (toStr fmt floatId) lat0 lon0 of
                Inl e \<Rightarrow> db
              | Inr pos \<Rightarrow>
                  if coordinateBad (fst pos) (snd pos) then db
                  else
                    (let db1 = upsertFloat db (toStr fmt floatId) pos;
                         r = insertProfile db1 (toStr fmt floatId) (fst pos) (snd pos) cycleNumber profileDate
                     in insertMeasurements (snd r) (dp_id (fst r)) profileData)))"

text \<open>\<open>processCsvFile\<close> and \<open>processAllFiles\<close>.\<close>

definition processCsvFile :: "(real \<Rightarrow> string) \<Rightarrow> floatMeta jsobject \<Rightarrow> database \<Rightarrow> string \<times> content \<Rightarrow> database" where
  "processCsvFile fmt floatMetadata db file =
     (case snd file of
        Unreadable \<Rightarrow> db
      | Parsed data \<Rightarrow>
          (case groupByProfile fmt data of
             Inl e \<Rightarrow> db
           | Inr profileGroups \<Rightarrow>
               (foldl (\<lambda>d g. processProfileData fmt d (fst g) (snd g) floatMetadata) db
                  (ownEntries profileGroups))))"

definition processAllFiles :: "(real \<Rightarrow> string) \<Rightarrow> database \<Rightarrow> (string \<times> content) list \<Rightarrow> database" where
  "processAllFiles fmt db dir =
     foldl (processCsvFile fmt (extractFloatMetadata fmt (profFiles dir))) db (profFiles dir)"

section \<open>Terms of the specification and scenario inputs\<close>

text \<open>
  The closed rectangle formed by sorting the corner coordinates of a bounding box, as a
  predicate on the last position of a float.
\<close>

definition insideRect :: "real \<Rightarrow> real \<Rightarrow> real \<Rightarrow> real \<Rightarrow> floatRecord \<Rightarrow> bool" where
  "insideRect lat1 lon1 lat2 lon2 f =
     (case last_position_lat f of
        Fin la \<Rightarrow>
          (case last_position_lon f of
             Fin lo \<Rightarrow> min lat1 lat2 \<le> la \<and> la \<le> max lat1 lat2 \<and> min lon1 lon2 \<le> lo \<and> lo \<le> max lon1 lon2
           | _ \<Rightarrow> False)
      | _ \<Rightarrow> False)"

text \<open>
  Scenario D: two daily files with the float \<open>2901001\<close>, at (10.0, 70.0) in the first
  and at (10.5, 70.3) in the second.
\<close>

definition scenarioD :: "(string \<times> content) list" where
  "scenarioD =
     [(''20201101_prof.csv'',
       Parsed [[(''PLATFORM_NUMBER'', JStr ''2901001''), (''LATITUDE'', JNum (Fin 10.0)),
                (''LONGITUDE'', JNum (Fin 70.0)), (''PRES'', JNum (Fin 5)), (''TEMP'', JNum (Fin 27.1))]]),
      (''20201102_prof.csv'',
       Parsed [[(''PLATFORM_NUMBER'', JStr ''2901001''), (''LATITUDE'', JNum (Fin 10.5)),
                (''LONGITUDE'', JNum (Fin 70.3)), (''PRES'', JNum (Fin 6)), (''TEMP'', JNum (Fin 27.0))]])]"

text \<open>Scenario B: one file whose only row lies at latitude 95.\<close>

definition scenarioB :: "(string \<times> content) list" where
  "scenarioB =
     [(''20201101_prof.csv'',
       Parsed [[(''PLATFORM_NUMBER'', JStr ''2901002''), (''LATITUDE'', JNum (Fin 95.0)),
                (''LONGITUDE'', JNum (Fin 70.0)), (''PRES'', JNum (Fin 5)), (''TEMP'', JNum (Fin 27.1))]])]"

text \<open>A row on the equator, and a file that holds it.\<close>

definition equatorRow :: row where
  "equatorRow =
     [(''PLATFORM_NUMBER'', JStr ''2901003''), (''LATITUDE'', JNum (Fin 0)),
      (''LONGITUDE'', JNum (Fin 70.0)), (''PRES'', JNum (Fin 5)), (''TEMP'', JNum (Fin 27.1))]"

definition emptyDatabase :: database where
  "emptyDatabase = \<lparr>argo_floats = [], argo_profiles = [], argo_measurements = [], profile_seq = 0\<rparr>"

text \<open>Two floats, one inside the box with corners (12, 50) and (25, 78), one outside.\<close>

definition twoFloats :: store where
  "twoFloats =
     \<lparr>FLOAT_DATA =
        [\<lparr>float_id = JStr ''2901001'', wmo_number = JStr ''2901001'',
          last_position_lat = Fin 15, last_position_lon = Fin 60,
          status = ''active'', platform_type = ''ARGO_FLOAT'', last_profile_date = defaultDate\<rparr>,
         \<lparr>float_id = JStr ''2901002'', wmo_number = JStr ''2901002'',
          last_position_lat = Fin 10, last_position_lon = Fin 70,
          status = ''active'', platform_type = ''ARGO_FLOAT'', last_profile_date = defaultDate\<rparr>],
      MEASUREMENTS_DATA = []\<rparr>"

text \<open>
  The formatter used with the scenarios (their identifiers are strings, so it is never
  consulted), and the metadata of a float seen earlier at (3, 65).
\<close>

definition scenarioFmt :: "real \<Rightarrow> string" where
  "scenarioFmt r = []"

definition equatorMetadata :: "floatMeta jsobject" where
  "equatorMetadata =
     [(''2901003'',
       \<lparr>fm_float_id = ''2901003'', fm_wmo_number = ''2901003'',
        positions = [\<lparr>pos_date = defaultDate, pos_latitude = Fin 3, pos_longitude = Fin 65\<rparr>],
        profiles = [\<lparr>mp_date = defaultDate, mp_profile_id = ''0'', mp_latitude = Fin 3,
                     mp_longitude = Fin 65, mp_cycle_number = JNum (Fin 0)\<rparr>],
        fm_status = ''active''\<rparr>)]"

text \<open>
  The coordinates the database loader resolves from a representative row
  (\<open>LATITUDE || latitude || null\<close>), and a row with a zero latitude (longitude): neither
  column holds anything truthy, and one of them holds the number 0.
\<close>

definition sampleLatitude :: "row \<Rightarrow> jsval" where
  "sampleLatitude sample = js_or (field sample ''LATITUDE'') (js_or (field sample ''latitude'') JNull)"

definition sampleLongitude :: "row \<Rightarrow> jsval" where
  "sampleLongitude sample = js_or (field sample ''LONGITUDE'') (js_or (field sample ''longitude'') JNull)"

definition zeroLatitude :: "row \<Rightarrow> bool" where
  "zeroLatitude sample =
     (\<not> truthy (field sample ''LATITUDE'') \<and> \<not> truthy (field sample ''latitude'')
      \<and> (field sample ''LATITUDE'' = JNum (Fin 0) \<or> field sample ''latitude'' = JNum (Fin 0)))"

definition zeroLongitude :: "row \<Rightarrow> bool" where
  "zeroLongitude sample =
     (\<not> truthy (field sample ''LONGITUDE'') \<and> \<not> truthy (field sample ''longitude'')
      \<and> (field sample ''LONGITUDE'' = JNum (Fin 0) \<or> field sample ''longitude'' = JNum (Fin 0)))"

text \<open>
  A stored group. The in-memory server goes on with a group when both coordinates of its
  representative row are valid values and valid coordinates (\<open>coordinatesAccepted\<close>).
  The database loader goes on with the position that is left after the fallback to the
  float's metadata, when that position is not rejected (\<open>storedPosition\<close>, nothing when
  the group is skipped).
\<close>

definition coordinatesAccepted :: "row \<Rightarrow> bool" where
  "coordinatesAccepted sample =
     (case sampleCoordinate sample ''LATITUDE'' ''latitude'' of
        None \<Rightarrow> False
      | Some la \<Rightarrow>
          (case sampleCoordinate sample ''LONGITUDE'' ''longitude'' of
             None \<Rightarrow> False
           | Some lo \<Rightarrow> isValidCoordinate (JNum la) \<and> isValidCoordinate (JNum lo)))"

definition storedPosition :: "floatMeta jsobject \<Rightarrow> string \<Rightarrow> row \<Rightarrow> (jsval \<times> jsval) option" where
  "storedPosition floatMetadata key sample =
     (case fallbackPosition floatMetadata key (sampleLatitude sample) (sampleLongitude sample) of
        Inl e \<Rightarrow> None
      | Inr pos \<Rightarrow> if coordinateBad (fst pos) (snd pos) then None else Some pos)"

text \<open>
  The depth that belongs to a pressure: the pressure times 1.019716, an infinite
  pressure giving an infinite depth. \<open>storeDepthOK\<close> says it of every measurement of a
  store.
\<close>

definition depthAgrees :: "jsnum \<Rightarrow> jsnum \<Rightarrow> bool" where
  "depthAgrees p d =
     (case p of Fin x \<Rightarrow> d = Fin (x * 1.019716) | PosInf \<Rightarrow> d = PosInf | NegInf \<Rightarrow> d = NegInf | NaN \<Rightarrow> d = NaN)"

definition storeDepthOK :: "store \<Rightarrow> bool" where
  "storeDepthOK st =
     list_all (\<lambda>kv. list_all (\<lambda>e. list_all (\<lambda>m. depthAgrees (pressure m) (depth m)) (measurements e)) (snd kv))
       (MEASUREMENTS_DATA st)"

text \<open>
  More scenario inputs: a row with valid pressure and temperature and no coordinates; a
  row that is stored, and a row with the pressure sentinel; a row on the prime
  meridian; a row whose latitude cell is the text \<open>+0\<close>; a row with the zero in the
  lower-case column; and two files of which the first holds the equator row and the
  second the same float at (3, 65).
\<close>

definition skippedRow :: row where
  "skippedRow = [(''PLATFORM_NUMBER'', JStr ''2901004''), (''PRES'', JNum (Fin 5)), (''TEMP'', JNum (Fin 27.1))]"

definition storedSample :: row where
  "storedSample =
     [(''PLATFORM_NUMBER'', JStr ''2901005''), (''LATITUDE'', JNum (Fin 12)), (''LONGITUDE'', JNum (Fin 68)),
      (''PRES'', JNum (Fin 5)), (''TEMP'', JNum (Fin 27.1))]"

definition sentinelRow :: row where
  "sentinelRow = [(''PRES'', JNum (Fin 99999)), (''TEMP'', JNum (Fin 27.1))]"

definition meridianRow :: row where
  "meridianRow =
     [(''PLATFORM_NUMBER'', JStr ''2901003''), (''LATITUDE'', JNum (Fin 10)),
      (''LONGITUDE'', JNum (Fin 0)), (''PRES'', JNum (Fin 5)), (''TEMP'', JNum (Fin 27.1))]"

definition textZeroRow :: row where
  "textZeroRow =
     [(''PLATFORM_NUMBER'', JStr ''2901003''), (''LATITUDE'', JStr ''+0''),
      (''LONGITUDE'', JNum (Fin 70.0)), (''PRES'', JNum (Fin 5)), (''TEMP'', JNum (Fin 27.1))]"

definition lowerZeroRow :: row where
  "lowerZeroRow =
     [(''PLATFORM_NUMBER'', JStr ''2901003''), (''latitude'', JNum (Fin 0)),
      (''longitude'', JNum (Fin 70.0)), (''PRES'', JNum (Fin 5)), (''TEMP'', JNum (Fin 27.1))]"

definition laterPositionFiles :: "(string \<times> content) list" where
  "laterPositionFiles =
     [(''20201101_prof.csv'', Parsed [equatorRow]),
      (''20201102_prof.csv'',
       Parsed [[(''PLATFORM_NUMBER'', JStr ''2901003''), (''LATITUDE'', JNum (Fin 3)),
                (''LONGITUDE'', JNum (Fin 65)), (''PRES'', JNum (Fin 6)), (''TEMP'', JNum (Fin 27.0))]])]"

section \<open>Properties\<close>

lemma num_gt_iff_not_le:
  "num_gt n (Fin c) \<longleftrightarrow> n \<noteq> NaN \<and> \<not> num_le n (Fin c)"
  by (cases n) (auto simp: num_gt_def)

lemma isValidValue_both: "ArgoCsvProcessor_isValidValue v = isValidValue v"
  by (simp add: ArgoCsvProcessor_isValidValue_def isValidValue_def)

lemma isValidValue_examples:
  "isValidValue (JNum (Fin 27.1)) \<and> isValidValue (JStr ''12.5'') \<and> isValidValue (JNum (Fin (- 998.5)))
   \<and> \<not> isValidValue (JNum (Fin 99999)) \<and> \<not> isValidValue (JStr ''99999.0'')
   \<and> \<not> isValidValue (JNum (Fin (- 999))) \<and> \<not> isValidValue (JStr ''n/a'')
   \<and> \<not> isValidValue JUndefined \<and> \<not> isValidValue (JNum NaN)"
  by code_simp

text \<open>
  Claim C5. The validity predicate is false exactly when the value is null, the empty
  string, a value whose number is 99999, a value that is not numeric (its number is NaN,
  which covers undefined), or a value whose number is at most -999; it is true for every
  other value.
\<close>

theorem isValidValue_false_iff:
  "(\<not> isValidValue x) =
     (x = JNull \<or> x = JStr [] \<or> toNumber x = Fin 99999 \<or> toNumber x = NaN
      \<or> num_le (toNumber x) (Fin (- 999)))"
  by (cases x) (auto simp: isValidValue_def num_gt_iff_not_le)

subsection \<open>The date decoder\<close>

lemma TimeClip_julian_dead:
  "TimeClip n = InvalidDate \<Longrightarrow>
   TimeClip (num_add (Fin (real_of_int argoEpochMs))
      (num_mul (num_mul (num_mul (num_mul n (Fin 24)) (Fin 60)) (Fin 60)) (Fin 1000))) = InvalidDate"
  by (cases n) (auto simp: TimeClip_def argoEpochMs_def DayFromYear_def msPerDay_def split: if_splits)

text \<open>
  The Julian-day branch of \<open>extractDate\<close> is entered only for a number that
  \<open>new Date\<close> rejects, and then its own result is rejected as well: the branch never
  contributes, and a number is read as milliseconds since 1970.
\<close>

lemma extractDate_eq:
  "extractDate parse r =
     (if \<not> truthy (dateField r) \<or> newDate parse (dateField r) = InvalidDate then defaultDate
      else newDate parse (dateField r))"
  using TimeClip_julian_dead [of "toNumber (dateField r)"]
  by (cases "dateField r") (auto simp: extractDate_def Let_def isNumber_def newDate_def)

lemma defaultDate_value: "defaultDate = Date 1604188800000"
  by code_simp

text \<open>
  Claim C4, as amended. \<open>extractDate\<close> is total and always returns a valid date; an
  input that is absent (falsy), or from which \<open>new Date\<close> obtains no valid date, decodes
  to the fixed default date 2020-11-01T00:00:00Z. The name of the source file plays no
  part.
\<close>

theorem extractDate_total_default:
  "extractDate parse r \<noteq> InvalidDate \<and>
   (\<not> truthy (dateField r) \<or> newDate parse (dateField r) = InvalidDate
      \<longrightarrow> extractDate parse r = defaultDate)"
  by (simp add: extractDate_eq defaultDate_value)

theorem extractDate_total_default_witness:
  "newDate isoDateOnly (dateField [(''JULD'', JStr ''n/a'')]) = InvalidDate \<and>
   extractDate isoDateOnly [(''JULD'', JStr ''n/a'')] = defaultDate \<and>
   extractDate isoDateOnly [(''JULD'', JStr ''n/a'')] \<noteq> InvalidDate"
proof -
  have h: "newDate isoDateOnly (dateField [(''JULD'', JStr ''n/a'')]) = InvalidDate"
    by code_simp
  with extractDate_total_default [of isoDateOnly "[(''JULD'', JStr ''n/a'')]"]
  show ?thesis by blast
qed

text \<open>
  Claim C4, as stated, fails. The row \<open>{JULD: 25854}\<close> decodes to 25854 milliseconds
  after 1970-01-01T00:00:00Z, not to the ARGO epoch plus 25854 days (which is
  2020-10-14T00:00:00Z, time value 1602633600000); and a row without a date decodes to
  2020-11-01 where the file name \<open>20201115_prof.csv\<close> gives 2020-11-15.
\<close>

theorem extractDate_julian_counterexample:
  "extractDate isoDateOnly [(''JULD'', JNum (Fin 25854))] = Date 25854 \<and>
   spec_julianDate 25854 = Date 1602633600000 \<and>
   extractDate isoDateOnly [(''JULD'', JNum (Fin 25854))] \<noteq> spec_julianDate 25854 \<and>
   extractDate isoDateOnly [] = Date 1604188800000 \<and>
   extractDateFromFilename ''20201115_prof.csv'' = Date 1605398400000"
  by code_simp

subsection \<open>The bounding-box filter\<close>

lemma inBbox_insideRect:
  "inBbox f (Some [Fin a, Fin b, Fin c, Fin d]) = insideRect a b c d f"
  by (cases "last_position_lat f"; cases "last_position_lon f")
     (auto simp: inBbox_def insideRect_def nthNum_def Math_min_def Math_max_def num_ge_def Let_def min_def max_def)

text \<open>
  Claim C6. When the \<open>bbox\<close> parameter holds four numbers, \<open>GET /api/floats\<close> with
  that parameter alone returns exactly the floats whose last position lies in the closed
  rectangle spanned by the two corners, in stored order; the same box given with its
  corners exchanged returns the same list.
\<close>

theorem listFloats_bbox:
  assumes "map StringToNumber (splitOn (CHR '','') s) = [Fin a, Fin b, Fin c, Fin d]"
    and "map StringToNumber (splitOn (CHR '','') s') = [Fin c, Fin d, Fin a, Fin b]"
  shows "listFloats parse None (Some s) None st = filter (insideRect a b c d) (FLOAT_DATA st)
       \<and> listFloats parse None (Some s') None st = listFloats parse None (Some s) None st"
proof -
  have ne: "s \<noteq> []" "s' \<noteq> []" using assms by auto
  have sym: "insideRect c d a b = insideRect a b c d"
    by (rule ext) (auto simp: insideRect_def min_def max_def split: jsnum.splits)
  show ?thesis
    using assms ne by (simp add: listFloats_def queryParam_def inBbox_insideRect sym)
qed

theorem listFloats_bbox_witness:
  "listFloats isoDateOnly None (Some ''25,78,12,50'') None twoFloats = [hd (FLOAT_DATA twoFloats)]
   \<and> listFloats isoDateOnly None (Some ''12,50,25,78'') None twoFloats
       = listFloats isoDateOnly None (Some ''25,78,12,50'') None twoFloats"
proof -
  have h1: "map StringToNumber (splitOn (CHR '','') ''25,78,12,50'') = [Fin 25, Fin 78, Fin 12, Fin 50]"
    by code_simp
  have h2: "map StringToNumber (splitOn (CHR '','') ''12,50,25,78'') = [Fin 12, Fin 50, Fin 25, Fin 78]"
    by code_simp
  have h3: "filter (insideRect 25 78 12 50) (FLOAT_DATA twoFloats) = [hd (FLOAT_DATA twoFloats)]"
    by code_simp
  from listFloats_bbox [OF h1 h2, of isoDateOnly twoFloats] h3 show ?thesis by simp
qed

lemma bbox_filter_with_other_filters:
  assumes "map StringToNumber (splitOn (CHR '','') s) = [Fin a, Fin b, Fin c, Fin d]"
  shows "listFloats parse sq (Some s) rq st = filter (insideRect a b c d) (listFloats parse sq None rq st)"
proof -
  have ne: "s \<noteq> []" using assms by auto
  show ?thesis
    using assms ne
    by (auto simp: listFloats_def queryParam_def inBbox_insideRect Let_def split: option.splits
          intro!: filter_cong)
qed

subsection \<open>Measurements of a row group\<close>

lemma validMeasurements_acc:
  "validMeasurements pid acc rows = acc @ map (measurementRow pid) (filter rowPasses rows)"
  by (induction rows arbitrary: acc) (simp_all add: rowPasses_def isValidValue_both)

lemma insertMeasurements_table:
  "argo_measurements (insertMeasurements db pid rows)
     = argo_measurements db @ map (measurementRow pid) (filter rowPasses rows)"
  by (simp add: insertMeasurements_def Let_def validMeasurements_acc)

lemma insertMeasurements_other_tables:
  "argo_profiles (insertMeasurements db pid rows) = argo_profiles db"
  "argo_floats (insertMeasurements db pid rows) = argo_floats db"
  "profile_seq (insertMeasurements db pid rows) = profile_seq db"
  by (simp_all add: insertMeasurements_def Let_def)

text \<open>Assigning a property, and reading it back.\<close>

lemma map_of_setProp:
  "map_of (setProp obj k v) k' = (if k' = k then Some v else map_of obj k')"
  by (induction obj) auto

lemma getProp_setProp_same: "getProp (setProp obj k v) k = Own v"
  by (simp add: getProp_def map_of_setProp)

lemma set_setProp: "set (setProp obj k v) \<subseteq> insert (k, v) (set obj)"
  by (induction obj) (auto split: if_splits)

lemma getProp_Own_mem: "getProp obj k = Own v \<Longrightarrow> (k, v) \<in> set obj"
  by (auto simp: getProp_def split: option.splits if_splits dest: map_of_SomeD)

text \<open>
  The in-memory server: a group whose coordinates are accepted goes through
  \<open>recordProfile\<close>, which appends one profile entry with the measurements of the group;
  any other group leaves the store as it was.
\<close>

lemma processGroup_accepted:
  assumes "coordinatesAccepted sample"
  shows "\<exists>la lo. processGroup fmt d st (pid, sample # rest)
     = recordProfile fmt d st pid (sample # rest)
         (sampleFloatId sample (JStr (''2901'' @ padStart pid 3 (CHR ''0'')))) la lo"
  using assms
  by (auto simp: processGroup_def coordinatesAccepted_def Let_def split: option.splits)

lemma processGroup_rejected:
  assumes "\<not> coordinatesAccepted sample"
  shows "processGroup fmt d st (pid, sample # rest) = (None, st)"
  using assms
  by (auto simp: processGroup_def coordinatesAccepted_def Let_def split: option.splits)

lemma recordProfile_entry:
  assumes "getProp (MEASUREMENTS_DATA st) (toStr fmt floatId) \<noteq> Inherited"
  shows "getProp (MEASUREMENTS_DATA (snd (recordProfile fmt d st pid rows floatId la lo))) (toStr fmt floatId)
     = Own ((case getProp (MEASUREMENTS_DATA st) (toStr fmt floatId) of Own ps \<Rightarrow> ps | _ \<Rightarrow> [])
            @ [\<lparr>profile_id = toStr fmt floatId @ ''_'' @ pid, date = d,
                 measurements = buildMeasurements rows\<rparr>])"
  using assms
  by (auto simp: recordProfile_def Let_def getProp_setProp_same split: property.splits)

text \<open>
  The database loader: a group without a stored position leaves the database as it
  was; a group with one appends its measurements, one profile, and upserts the float.
\<close>

lemma processProfileData_skipped:
  assumes "storedPosition floatMetadata (toStr fmt (sampleFloatId sample (JStr profileId))) sample = None"
  shows "processProfileData fmt db profileId (sample # rest) floatMetadata = db"
  using assms
  by (auto simp: processProfileData_def storedPosition_def sampleLatitude_def sampleLongitude_def Let_def
        split: sum.splits if_splits)

lemma processProfileData_stored:
  assumes "storedPosition floatMetadata (toStr fmt (sampleFloatId sample (JStr profileId))) sample = Some (lat, lon)"
  shows "argo_measurements (processProfileData fmt db profileId (sample # rest) floatMetadata)
           = argo_measurements db @ map (measurementRow (Suc (profile_seq db))) (filter rowPasses (sample # rest))
       \<and> argo_profiles (processProfileData fmt db profileId (sample # rest) floatMetadata)
           = argo_profiles db @
             [\<lparr>dp_id = Suc (profile_seq db), dp_float_id = toStr fmt (sampleFloatId sample (JStr profileId)),
               dp_profile_date = extractDateFromFilename (basename profileId),
               dp_cycle_number = cycleNumberOf sample,
               dp_latitude = lat, dp_longitude = lon, dp_profile_direction = ''A''\<rparr>]
       \<and> argo_floats (processProfileData fmt db profileId (sample # rest) floatMetadata)
           = upsertRow (argo_floats db) (toStr fmt (sampleFloatId sample (JStr profileId))) lat lon"
  using assms
  by (auto simp: processProfileData_def storedPosition_def sampleLatitude_def sampleLongitude_def Let_def
        insertProfile_def upsertFloat_def insertMeasurements_table insertMeasurements_other_tables
        split: sum.splits if_splits)

text \<open>
  Claim C7, as amended. Within a row group that is stored, each row contributes exactly
  one measurement when both its \<open>PRES\<close> and its \<open>TEMP\<close> cell pass \<open>isValidValue\<close>, and
  none otherwise, whatever the rows around it. In the in-memory server a group whose
  coordinates are accepted (and whose float identifier finds no inherited property) gets
  a profile entry with exactly these measurements, and a group whose coordinates are
  rejected changes nothing. In the database loader a group with a stored position adds
  exactly these measurements to the table, and a group without one changes nothing. The
  row \<open>{PRES: 99999.0, TEMP: 27.1}\<close> yields no measurement.
\<close>

theorem measurement_iff_valid_in_stored_group:
  "buildMeasurements (xs @ r # ys)
     = buildMeasurements xs
       @ (if isValidValue (field r ''PRES'') \<and> isValidValue (field r ''TEMP'') then [measurementOfRow r] else [])
       @ buildMeasurements ys
   \<and> map (measurementRow pid) (filter rowPasses (xs @ r # ys))
     = map (measurementRow pid) (filter rowPasses xs)
       @ (if isValidValue (field r ''PRES'') \<and> isValidValue (field r ''TEMP'') then [measurementRow pid r] else [])
       @ map (measurementRow pid) (filter rowPasses ys)
   \<and> (coordinatesAccepted sample
        \<and> getProp (MEASUREMENTS_DATA st)
             (toStr fmt (sampleFloatId sample (JStr (''2901'' @ padStart profileId 3 (CHR ''0''))))) \<noteq> Inherited
       \<longrightarrow> getProp (MEASUREMENTS_DATA (snd (processGroup fmt fileDate st (profileId, sample # rest))))
             (toStr fmt (sampleFloatId sample (JStr (''2901'' @ padStart profileId 3 (CHR ''0'')))))
           = Own ((case getProp (MEASUREMENTS_DATA st)
                          (toStr fmt (sampleFloatId sample (JStr (''2901'' @ padStart profileId 3 (CHR ''0'')))))
                   of Own ps \<Rightarrow> ps | _ \<Rightarrow> [])
                  @ [\<lparr>profile_id =
                        toStr fmt (sampleFloatId sample (JStr (''2901'' @ padStart profileId 3 (CHR ''0''))))
                        @ ''_'' @ profileId,
                      date = fileDate,
                      measurements = buildMeasurements (sample # rest)\<rparr>]))
   \<and> (\<not> coordinatesAccepted sample \<longrightarrow> processGroup fmt fileDate st (profileId, sample # rest) = (None, st))
   \<and> (storedPosition floatMetadata (toStr fmt (sampleFloatId sample (JStr profileId))) sample \<noteq> None
       \<longrightarrow> argo_measurements (processProfileData fmt db profileId (sample # rest) floatMetadata)
           = argo_measurements db
             @ map (measurementRow (Suc (profile_seq db))) (filter rowPasses (sample # rest)))
   \<and> (storedPosition floatMetadata (toStr fmt (sampleFloatId sample (JStr profileId))) sample = None
       \<longrightarrow> processProfileData fmt db profileId (sample # rest) floatMetadata = db)
   \<and> buildMeasurements [[(''PRES'', JNum (Fin 99999)), (''TEMP'', JNum (Fin 27.1))]] = []
   \<and> filter rowPasses [[(''PRES'', JNum (Fin 99999)), (''TEMP'', JNum (Fin 27.1))]] = []"
proof -
  have a: "coordinatesAccepted sample
        \<and> getProp (MEASUREMENTS_DATA st)
             (toStr fmt (sampleFloatId sample (JStr (''2901'' @ padStart profileId 3 (CHR ''0''))))) \<noteq> Inherited
       \<longrightarrow> getProp (MEASUREMENTS_DATA (snd (processGroup fmt fileDate st (profileId, sample # rest))))
             (toStr fmt (sampleFloatId sample (JStr (''2901'' @ padStart profileId 3 (CHR ''0'')))))
           = Own ((case getProp (MEASUREMENTS_DATA st)
                          (toStr fmt (sampleFloatId sample (JStr (''2901'' @ padStart profileId 3 (CHR ''0'')))))
                   of Own ps \<Rightarrow> ps | _ \<Rightarrow> [])
                  @ [\<lparr>profile_id =
                        toStr fmt (sampleFloatId sample (JStr (''2901'' @ padStart profileId 3 (CHR ''0''))))
                        @ ''_'' @ profileId,
                      date = fileDate,
                      measurements = buildMeasurements (sample # rest)\<rparr>])"
  proof
    assume h: "coordinatesAccepted sample
        \<and> getProp (MEASUREMENTS_DATA st)
             (toStr fmt (sampleFloatId sample (JStr (''2901'' @ padStart profileId 3 (CHR ''0''))))) \<noteq> Inherited"
    then obtain la lo where "processGroup fmt fileDate st (profileId, sample # rest)
       = recordProfile fmt fileDate st profileId (sample # rest)
           (sampleFloatId sample (JStr (''2901'' @ padStart profileId 3 (CHR ''0'')))) la lo"
      using processGroup_accepted by blast
    with h recordProfile_entry show "getProp (MEASUREMENTS_DATA (snd (processGroup fmt fileDate st (profileId, sample # rest))))
             (toStr fmt (sampleFloatId sample (JStr (''2901'' @ padStart profileId 3 (CHR ''0'')))))
           = Own ((case getProp (MEASUREMENTS_DATA st)
                          (toStr fmt (sampleFloatId sample (JStr (''2901'' @ padStart profileId 3 (CHR ''0'')))))
                   of Own ps \<Rightarrow> ps | _ \<Rightarrow> [])
                  @ [\<lparr>profile_id =
                        toStr fmt (sampleFloatId sample (JStr (''2901'' @ padStart profileId 3 (CHR ''0''))))
                        @ ''_'' @ profileId,
                      date = fileDate,
                      measurements = buildMeasurements (sample # rest)\<rparr>])"
      by simp
  qed
  have b: "storedPosition floatMetadata (toStr fmt (sampleFloatId sample (JStr profileId))) sample \<noteq> None
       \<longrightarrow> argo_measurements (processProfileData fmt db profileId (sample # rest) floatMetadata)
           = argo_measurements db
             @ map (measurementRow (Suc (profile_seq db))) (filter rowPasses (sample # rest))"
    using processProfileData_stored [of floatMetadata fmt sample profileId _ _ db rest] by auto
  have c: "buildMeasurements [[(''PRES'', JNum (Fin 99999)), (''TEMP'', JNum (Fin 27.1))]] = []"
    "filter rowPasses [[(''PRES'', JNum (Fin 99999)), (''TEMP'', JNum (Fin 27.1))]] = []"
    by (simp_all add: buildMeasurements_def rowPasses_def isValidValue_def field_def)
  have d: "buildMeasurements (xs @ r # ys)
     = buildMeasurements xs
       @ (if isValidValue (field r ''PRES'') \<and> isValidValue (field r ''TEMP'') then [measurementOfRow r] else [])
       @ buildMeasurements ys"
    "map (measurementRow pid) (filter rowPasses (xs @ r # ys))
     = map (measurementRow pid) (filter rowPasses xs)
       @ (if isValidValue (field r ''PRES'') \<and> isValidValue (field r ''TEMP'') then [measurementRow pid r] else [])
       @ map (measurementRow pid) (filter rowPasses ys)"
    by (simp_all add: buildMeasurements_def rowPasses_def)
  show ?thesis
    using a b c d processGroup_rejected [of sample fmt fileDate st profileId rest]
      processProfileData_skipped [of floatMetadata fmt sample profileId db rest]
    by blast
qed

theorem measurement_iff_valid_in_stored_group_witness:
  "coordinatesAccepted storedSample
   \<and> getProp (MEASUREMENTS_DATA emptyStore) ''2901005'' \<noteq> Inherited
   \<and> getProp (MEASUREMENTS_DATA (snd (processGroup scenarioFmt defaultDate emptyStore
         (''0'', [storedSample, sentinelRow])))) ''2901005''
       = Own [\<lparr>profile_id = ''2901005_0'', date = defaultDate,
                measurements = [measurementOfRow storedSample]\<rparr>]
   \<and> \<not> coordinatesAccepted skippedRow
   \<and> processGroup scenarioFmt defaultDate emptyStore (''0'', [skippedRow]) = (None, emptyStore)
   \<and> storedPosition [] ''2901005'' storedSample \<noteq> None
   \<and> argo_measurements (processProfileData scenarioFmt emptyDatabase ''0'' [storedSample, sentinelRow] [])
       = [measurementRow 1 storedSample]
   \<and> storedPosition [] ''2901004'' skippedRow = None
   \<and> processProfileData scenarioFmt emptyDatabase ''0'' [skippedRow] [] = emptyDatabase"
proof -
  have k1: "toStr scenarioFmt (sampleFloatId storedSample (JStr (''2901'' @ padStart ''0'' 3 (CHR ''0'')))) = ''2901005''"
    "toStr scenarioFmt (sampleFloatId storedSample (JStr ''0'')) = ''2901005''"
    "toStr scenarioFmt (sampleFloatId skippedRow (JStr ''0'')) = ''2901004''"
    by code_simp+
  have h1: "coordinatesAccepted storedSample" by code_simp
  have h2: "getProp (MEASUREMENTS_DATA emptyStore) ''2901005'' = Absent" by code_simp
  have h3: "\<not> coordinatesAccepted skippedRow" by code_simp
  have h4: "storedPosition [] ''2901005'' storedSample \<noteq> None" by code_simp
  have h5: "storedPosition [] ''2901004'' skippedRow = None" by code_simp
  have h6: "buildMeasurements [storedSample, sentinelRow] = [measurementOfRow storedSample]" by code_simp
  have h7: "filter rowPasses [storedSample, sentinelRow] = [storedSample]" by code_simp
  have h8: "argo_measurements emptyDatabase = []" "profile_seq emptyDatabase = 0"
    by (simp_all add: emptyDatabase_def)
  from measurement_iff_valid_in_stored_group
         [of "[]" storedSample "[sentinelRow]" 1 storedSample emptyStore scenarioFmt "''0''" defaultDate
             "[sentinelRow]" "[]" emptyDatabase]
       measurement_iff_valid_in_stored_group
         [of "[]" skippedRow "[]" 1 skippedRow emptyStore scenarioFmt "''0''" defaultDate "[]" "[]" emptyDatabase]
       k1 h1 h2 h3 h4 h5 h6 h7 h8
  show ?thesis by simp
qed

text \<open>
  Claim C7, as stated, fails. A row with valid pressure and temperature whose group has
  no coordinates yields no measurement: both loaders skip the group before they look at
  its rows.
\<close>

theorem valid_row_of_skipped_group_counterexample:
  "isValidValue (field skippedRow ''PRES'') \<and> isValidValue (field skippedRow ''TEMP'')
   \<and> loadCSVData scenarioFmt [(''20201101_prof.csv'', Parsed [skippedRow])] = emptyStore
   \<and> processAllFiles scenarioFmt emptyDatabase [(''20201101_prof.csv'', Parsed [skippedRow])] = emptyDatabase"
  by code_simp

subsection \<open>Depth\<close>

lemma depthAgrees_num_mul: "depthAgrees n (num_mul n (Fin 1.019716))"
  by (cases n) (simp_all add: depthAgrees_def)

lemma buildMeasurements_depth:
  "m \<in> set (buildMeasurements rows) \<Longrightarrow> depthAgrees (pressure m) (depth m)"
proof -
  assume "m \<in> set (buildMeasurements rows)"
  then obtain r where "m = measurementOfRow r"
    by (auto simp: buildMeasurements_def)
  then show ?thesis
    using depthAgrees_num_mul [of "toNumber (field r ''PRES'')"]
    by (simp add: measurementOfRow_def)
qed

lemma measurementRow_depth: "depthAgrees (dm_pressure (measurementRow pid r)) (dm_depth (measurementRow pid r))"
  using depthAgrees_num_mul [of "toNumber (field r ''PRES'')"]
  by (simp add: measurementRow_def pressureToDepth_def)

lemma rowPasses_pressure:
  assumes "rowPasses r"
  shows "toNumber (field r ''PRES'') = PosInf
         \<or> (\<exists>p. toNumber (field r ''PRES'') = Fin p \<and> - 999 < p \<and> p \<noteq> 99999)"
  using assms
  by (cases "toNumber (field r ''PRES'')") (auto simp: rowPasses_def isValidValue_def num_gt_def)

text \<open>The in-memory store holds only measurements whose depth belongs to their pressure.\<close>

lemma recordProfile_depthOK:
  assumes "storeDepthOK st"
  shows "storeDepthOK (snd (recordProfile fmt d st pid rows floatId la lo))"
proof -
  let ?key = "toStr fmt floatId"
  let ?entry = "\<lparr>profile_id = toStr fmt floatId @ ''_'' @ pid, date = d,
                  measurements = buildMeasurements rows\<rparr>"
  have e: "list_all (\<lambda>m. depthAgrees (pressure m) (depth m)) (measurements ?entry)"
    by (simp add: list_all_iff buildMeasurements_depth)
  have step: "\<And>ps :: profileEntry list. list_all (\<lambda>e. list_all (\<lambda>m. depthAgrees (pressure m) (depth m)) (measurements e)) ps \<Longrightarrow>
      storeDepthOK \<lparr>FLOAT_DATA = fs, MEASUREMENTS_DATA = setProp (MEASUREMENTS_DATA st) ?key (ps @ [?entry])\<rparr>" for fs :: "floatRecord list"
  proof -
    fix ps :: "profileEntry list"
    assume ps: "list_all (\<lambda>e. list_all (\<lambda>m. depthAgrees (pressure m) (depth m)) (measurements e)) ps"
    show "storeDepthOK \<lparr>FLOAT_DATA = fs, MEASUREMENTS_DATA = setProp (MEASUREMENTS_DATA st) ?key (ps @ [?entry])\<rparr>"
      unfolding storeDepthOK_def list_all_iff
    proof (intro ballI)
      fix kv e' m
      assume kv: "kv \<in> set (MEASUREMENTS_DATA \<lparr>FLOAT_DATA = fs, MEASUREMENTS_DATA = setProp (MEASUREMENTS_DATA st) ?key (ps @ [?entry])\<rparr>)"
        and e': "e' \<in> set (snd kv)" and m: "m \<in> set (measurements e')"
      from kv set_setProp [of "MEASUREMENTS_DATA st" ?key "ps @ [?entry]"]
      have "kv = (?key, ps @ [?entry]) \<or> kv \<in> set (MEASUREMENTS_DATA st)" by auto
      then show "depthAgrees (pressure m) (depth m)"
      proof
        assume "kv = (?key, ps @ [?entry])"
        with e' have "e' \<in> set ps \<or> e' = ?entry" by auto
        then show ?thesis using ps e m by (auto simp: list_all_iff)
      next
        assume "kv \<in> set (MEASUREMENTS_DATA st)"
        then show ?thesis using assms e' m by (auto simp: storeDepthOK_def list_all_iff)
      qed
    qed
  qed
  show ?thesis
  proof (cases "getProp (MEASUREMENTS_DATA st) ?key")
    case (Own ps)
    then have "(?key, ps) \<in> set (MEASUREMENTS_DATA st)" by (rule getProp_Own_mem)
    then have "list_all (\<lambda>e. list_all (\<lambda>m. depthAgrees (pressure m) (depth m)) (measurements e)) ps"
      using assms by (auto simp: storeDepthOK_def list_all_iff)
    from step [OF this] Own show ?thesis by (simp add: recordProfile_def Let_def)
  next
    case Inherited
    then show ?thesis using assms by (simp add: recordProfile_def Let_def storeDepthOK_def)
  next
    case Absent
    from step [of "[] :: profileEntry list"] Absent show ?thesis by (simp add: recordProfile_def Let_def)
  qed
qed

lemma processGroup_depthOK:
  "storeDepthOK st \<Longrightarrow> storeDepthOK (snd (processGroup fmt d st g))"
  by (auto simp: processGroup_def Let_def recordProfile_depthOK split: list.splits option.splits)

lemma forEachGroup_depthOK:
  "storeDepthOK st \<Longrightarrow> storeDepthOK (snd (forEachGroup fmt d st gs))"
proof (induction gs arbitrary: st)
  case Nil
  then show ?case by simp
next
  case (Cons g gs)
  then show ?case by (auto simp: Let_def processGroup_depthOK)
qed

lemma loadFile_depthOK:
  "storeDepthOK st \<Longrightarrow> storeDepthOK (loadFile fmt st file)"
  by (auto simp: loadFile_def forEachGroup_depthOK split: content.splits sum.splits)

lemma loadFiles_depthOK:
  "storeDepthOK st \<Longrightarrow> storeDepthOK (foldl (loadFile fmt) st files)"
  by (induction files arbitrary: st) (simp_all add: loadFile_depthOK)

lemma loadCSVData_depthOK: "storeDepthOK (loadCSVData fmt dir)"
proof -
  have "storeDepthOK emptyStore" by (simp add: storeDepthOK_def emptyStore_def)
  then show ?thesis by (simp add: loadCSVData_def loadFiles_depthOK)
qed

text \<open>So does every measurement the database loader adds to the table.\<close>

lemma processProfileData_new_measurements:
  "\<exists>new. argo_measurements (processProfileData fmt db profileId rows floatMetadata) = argo_measurements db @ new
         \<and> list_all (\<lambda>m. depthAgrees (dm_pressure m) (dm_depth m)) new"
proof (cases rows)
  case Nil
  then show ?thesis by (simp add: processProfileData_def)
next
  case (Cons sample rest)
  show ?thesis
  proof (cases "storedPosition floatMetadata (toStr fmt (sampleFloatId sample (JStr profileId))) sample")
    case None
    then show ?thesis using Cons processProfileData_skipped by simp
  next
    case (Some pos)
    then obtain lat lon where "storedPosition floatMetadata (toStr fmt (sampleFloatId sample (JStr profileId))) sample = Some (lat, lon)"
      by (cases pos) simp
    from processProfileData_stored [OF this, of db rest]
    have "argo_measurements (processProfileData fmt db profileId rows floatMetadata)
        = argo_measurements db @ map (measurementRow (Suc (profile_seq db))) (filter rowPasses rows)"
      using Cons by simp
    moreover have "list_all (\<lambda>m. depthAgrees (dm_pressure m) (dm_depth m))
        (map (measurementRow (Suc (profile_seq db))) (filter rowPasses rows))"
      by (simp add: list_all_iff measurementRow_depth)
    ultimately show ?thesis by blast
  qed
qed

lemma processGroups_new_measurements:
  "\<exists>new. argo_measurements (foldl (\<lambda>d g. processProfileData fmt d (fst g) (snd g) floatMetadata) db gs)
            = argo_measurements db @ new
         \<and> list_all (\<lambda>m. depthAgrees (dm_pressure m) (dm_depth m)) new"
proof (induction gs arbitrary: db)
  case Nil
  then show ?case by simp
next
  case (Cons g gs)
  obtain n1 where n1: "argo_measurements (processProfileData fmt db (fst g) (snd g) floatMetadata) = argo_measurements db @ n1"
    "list_all (\<lambda>m. depthAgrees (dm_pressure m) (dm_depth m)) n1"
    using processProfileData_new_measurements by blast
  obtain n2 where n2: "argo_measurements (foldl (\<lambda>d g. processProfileData fmt d (fst g) (snd g) floatMetadata)
        (processProfileData fmt db (fst g) (snd g) floatMetadata) gs)
      = argo_measurements (processProfileData fmt db (fst g) (snd g) floatMetadata) @ n2"
    "list_all (\<lambda>m. depthAgrees (dm_pressure m) (dm_depth m)) n2"
    using Cons.IH by blast
  have "list_all (\<lambda>m. depthAgrees (dm_pressure m) (dm_depth m)) (n1 @ n2)" using n1 n2 by simp
  then show ?case using n1 n2 by (intro exI [of _ "n1 @ n2"]) simp
qed

lemma processCsvFile_new_measurements:
  "\<exists>new. argo_measurements (processCsvFile fmt floatMetadata db file) = argo_measurements db @ new
         \<and> list_all (\<lambda>m. depthAgrees (dm_pressure m) (dm_depth m)) new"
  using processGroups_new_measurements
  by (auto simp: processCsvFile_def split: content.splits sum.splits)

lemma processFiles_new_measurements:
  "\<exists>new. argo_measurements (foldl (processCsvFile fmt floatMetadata) db files) = argo_measurements db @ new
         \<and> list_all (\<lambda>m. depthAgrees (dm_pressure m) (dm_depth m)) new"
proof (induction files arbitrary: db)
  case Nil
  then show ?case by simp
next
  case (Cons f fs)
  obtain n1 where n1: "argo_measurements (processCsvFile fmt floatMetadata db f) = argo_measurements db @ n1"
    "list_all (\<lambda>m. depthAgrees (dm_pressure m) (dm_depth m)) n1"
    using processCsvFile_new_measurements by blast
  obtain n2 where n2: "argo_measurements (foldl (processCsvFile fmt floatMetadata) (processCsvFile fmt floatMetadata db f) fs)
      = argo_measurements (processCsvFile fmt floatMetadata db f) @ n2"
    "list_all (\<lambda>m. depthAgrees (dm_pressure m) (dm_depth m)) n2"
    using Cons.IH by blast
  have "list_all (\<lambda>m. depthAgrees (dm_pressure m) (dm_depth m)) (n1 @ n2)" using n1 n2 by simp
  then show ?case using n1 n2 by (intro exI [of _ "n1 @ n2"]) simp
qed

lemma processAllFiles_new_measurements:
  "\<exists>new. argo_measurements (processAllFiles fmt db dir) = argo_measurements db @ new
         \<and> list_all (\<lambda>m. depthAgrees (dm_pressure m) (dm_depth m)) new"
  using processFiles_new_measurements by (simp add: processAllFiles_def)

text \<open>
  Claim C9. The measurement made from a row whose pressure cell is the number \<open>p\<close> has
  pressure \<open>p\<close> and depth \<open>p * 1.019716\<close>, in both loaders. Every measurement of a row
  group has a valid pressure, and as depth that pressure times 1.019716 (an infinite
  pressure, which \<open>isValidValue\<close> lets through, has an infinite depth). The same holds of
  every measurement in the store after \<open>loadCSVData\<close> and of every measurement that
  \<open>processAllFiles\<close> adds to the database. Numbers are the reals they denote, so the
  product is exact here.
\<close>

theorem depth_is_pressure_times_constant:
  "(toNumber (field r ''PRES'') = Fin p \<longrightarrow>
      pressure (measurementOfRow r) = Fin p \<and> depth (measurementOfRow r) = Fin (p * 1.019716)
      \<and> dm_pressure (measurementRow pid r) = Fin p \<and> dm_depth (measurementRow pid r) = Fin (p * 1.019716))
   \<and> (m \<in> set (buildMeasurements rows) \<longrightarrow>
        (pressure m = PosInf \<and> depth m = PosInf)
        \<or> (\<exists>q. pressure m = Fin q \<and> - 999 < q \<and> q \<noteq> 99999 \<and> depth m = Fin (q * 1.019716)))
   \<and> (kv \<in> set (MEASUREMENTS_DATA (loadCSVData fmt dir)) \<and> e \<in> set (snd kv) \<and> m \<in> set (measurements e)
        \<and> pressure m = Fin p \<longrightarrow> depth m = Fin (p * 1.019716))
   \<and> (m' \<in> set (argo_measurements (processAllFiles fmt db dir)) \<and> m' \<notin> set (argo_measurements db)
        \<and> dm_pressure m' = Fin p \<longrightarrow> dm_depth m' = Fin (p * 1.019716))"
proof (intro conjI impI)
  assume "toNumber (field r ''PRES'') = Fin p"
  then show "pressure (measurementOfRow r) = Fin p" "depth (measurementOfRow r) = Fin (p * 1.019716)"
    "dm_pressure (measurementRow pid r) = Fin p" "dm_depth (measurementRow pid r) = Fin (p * 1.019716)"
    by (simp_all add: measurementOfRow_def measurementRow_def pressureToDepth_def)
next
  assume "m \<in> set (buildMeasurements rows)"
  then obtain r' where r': "rowPasses r'" "m = measurementOfRow r'"
    by (auto simp: buildMeasurements_def)
  from rowPasses_pressure [OF r'(1)] r'(2)
  show "(pressure m = PosInf \<and> depth m = PosInf)
        \<or> (\<exists>q. pressure m = Fin q \<and> - 999 < q \<and> q \<noteq> 99999 \<and> depth m = Fin (q * 1.019716))"
    by (auto simp: measurementOfRow_def)
next
  assume a: "kv \<in> set (MEASUREMENTS_DATA (loadCSVData fmt dir)) \<and> e \<in> set (snd kv) \<and> m \<in> set (measurements e)
        \<and> pressure m = Fin p"
  have "\<forall>kv\<in>set (MEASUREMENTS_DATA (loadCSVData fmt dir)). \<forall>e\<in>set (snd kv).
          \<forall>m\<in>set (measurements e). depthAgrees (pressure m) (depth m)"
    using loadCSVData_depthOK [of fmt dir] by (simp add: storeDepthOK_def list_all_iff)
  with a have "depthAgrees (pressure m) (depth m)" by blast
  with a show "depth m = Fin (p * 1.019716)" by (simp add: depthAgrees_def)
next
  assume a: "m' \<in> set (argo_measurements (processAllFiles fmt db dir)) \<and> m' \<notin> set (argo_measurements db)
        \<and> dm_pressure m' = Fin p"
  obtain new where new: "argo_measurements (processAllFiles fmt db dir) = argo_measurements db @ new"
    "list_all (\<lambda>m. depthAgrees (dm_pressure m) (dm_depth m)) new"
    using processAllFiles_new_measurements by blast
  with a have "m' \<in> set new" by auto
  moreover have "\<forall>x\<in>set new. depthAgrees (dm_pressure x) (dm_depth x)"
    using new by (simp add: list_all_iff)
  ultimately have "depthAgrees (dm_pressure m') (dm_depth m')" by blast
  with a show "dm_depth m' = Fin (p * 1.019716)" by (simp add: depthAgrees_def)
qed

theorem depth_is_pressure_times_constant_witness:
  "toNumber (field storedSample ''PRES'') = Fin 5
   \<and> depth (measurementOfRow storedSample) = Fin (5 * 1.019716)
   \<and> dm_depth (measurementRow 1 storedSample) = Fin (5 * 1.019716)
   \<and> MEASUREMENTS_DATA (loadCSVData scenarioFmt [(''20201101_prof.csv'', Parsed [storedSample, sentinelRow])])
       = [(''2901005'', [\<lparr>profile_id = ''2901005_0'', date = defaultDate,
                           measurements = [measurementOfRow storedSample]\<rparr>])]
   \<and> argo_measurements (processAllFiles scenarioFmt emptyDatabase
         [(''20201101_prof.csv'', Parsed [storedSample, sentinelRow])])
       = [measurementRow 1 storedSample]
   \<and> buildMeasurements [storedSample, sentinelRow] = [measurementOfRow storedSample]"
proof -
  let ?dir = "[(''20201101_prof.csv'', Parsed [storedSample, sentinelRow])]"
  let ?e = "\<lparr>profile_id = ''2901005_0'', date = defaultDate, measurements = [measurementOfRow storedSample]\<rparr>"
  have h1: "toNumber (field storedSample ''PRES'') = Fin 5" by code_simp
  have h2: "buildMeasurements [storedSample, sentinelRow] = [measurementOfRow storedSample]" by code_simp
  have h3: "MEASUREMENTS_DATA (loadCSVData scenarioFmt ?dir) = [(''2901005'', [?e])]" by code_simp
  have h4: "argo_measurements (processAllFiles scenarioFmt emptyDatabase ?dir) = [measurementRow 1 storedSample]"
    by code_simp
  have h5: "argo_measurements emptyDatabase = []" by (simp add: emptyDatabase_def)
  have h6: "pressure (measurementOfRow storedSample) = Fin 5" "dm_pressure (measurementRow 1 storedSample) = Fin 5"
    by code_simp+
  from depth_is_pressure_times_constant
         [of storedSample 5 1 "measurementOfRow storedSample" "[storedSample, sentinelRow]"
             "(''2901005'', [?e])" scenarioFmt ?dir ?e "measurementRow 1 storedSample" emptyDatabase]
       h1 h2 h3 h4 h5 h6
  show ?thesis by simp
qed

subsection \<open>The float registry across files\<close>

text \<open>
  The in-memory server only ever appends to \<open>FLOAT_DATA\<close>: a record, once written, keeps
  its position and date through every later group and file.
\<close>

lemma processGroup_keeps_floats:
  "\<exists>new. FLOAT_DATA (snd (processGroup fmt d st g)) = FLOAT_DATA st @ new"
  by (auto simp: processGroup_def recordProfile_def Let_def
        split: list.splits property.splits option.splits)

lemma forEachGroup_keeps_floats:
  "\<exists>new. FLOAT_DATA (snd (forEachGroup fmt d st gs)) = FLOAT_DATA st @ new"
proof (induction gs arbitrary: st)
  case Nil
  then show ?case by simp
next
  case (Cons g gs)
  obtain n1 where n1: "FLOAT_DATA (snd (processGroup fmt d st g)) = FLOAT_DATA st @ n1"
    using processGroup_keeps_floats by blast
  obtain n2 where n2: "FLOAT_DATA (snd (forEachGroup fmt d (snd (processGroup fmt d st g)) gs))
      = FLOAT_DATA (snd (processGroup fmt d st g)) @ n2"
    using Cons.IH by blast
  show ?case using n1 n2 by (auto simp: Let_def)
qed

lemma loadFile_keeps_floats:
  "\<exists>new. FLOAT_DATA (loadFile fmt st file) = FLOAT_DATA st @ new"
  using forEachGroup_keeps_floats
  by (auto simp: loadFile_def split: content.splits sum.splits)

lemma loadFiles_keep_floats:
  "\<exists>new. FLOAT_DATA (foldl (loadFile fmt) st files) = FLOAT_DATA st @ new"
proof (induction files arbitrary: st)
  case Nil
  then show ?case by simp
next
  case (Cons f fs)
  obtain n1 where n1: "FLOAT_DATA (loadFile fmt st f) = FLOAT_DATA st @ n1"
    using loadFile_keeps_floats by blast
  obtain n2 where "FLOAT_DATA (foldl (loadFile fmt) (loadFile fmt st f) fs) = FLOAT_DATA (loadFile fmt st f) @ n2"
    using Cons.IH by blast
  then show ?case using n1 by simp
qed

text \<open>The database loader overwrites the position of a float it has seen.\<close>

lemma upsertRow_overwrites:
  "\<exists>f. find (\<lambda>f. db_float_id f = fid) (upsertRow fs fid lat lon) = Some f
       \<and> db_last_position_lat f = lat \<and> db_last_position_lon f = lon"
  by (induction fs) auto

lemma processAllFiles_scenarioD:
  "map (\<lambda>f. (db_float_id f, db_last_position_lat f, db_last_position_lon f))
       (argo_floats (processAllFiles fmt emptyDatabase scenarioD))
     = [(''2901001'', JNum (Fin 10.5), JNum (Fin 70.3))]
   \<and> map (\<lambda>p. (dp_float_id p, dp_latitude p, dp_longitude p))
       (argo_profiles (processAllFiles fmt emptyDatabase scenarioD))
     = [(''2901001'', JNum (Fin 10), JNum (Fin 70)), (''2901001'', JNum (Fin 10.5), JNum (Fin 70.3))]"
  by code_simp

text \<open>
  Claim C1 fails on the in-memory server. After the two files of scenario D the record
  of float \<open>2901001\<close> is still at (10.0, 70.0), the position of the first file, and both
  trajectory points carry that position.
\<close>

theorem loadCSVData_keeps_first_position:
  "map (\<lambda>f. (float_id f, last_position_lat f, last_position_lon f)) (FLOAT_DATA (loadCSVData fmt scenarioD))
     = [(JStr ''2901001'', Fin 10, Fin 70)]
   \<and> trajectoryForFloat (loadCSVData fmt scenarioD) ''2901001''
     = Inr (''2901001'',
         [\<lparr>tp_timestamp = Date 1604188800000, tp_latitude = Fin 10, tp_longitude = Fin 70\<rparr>,
          \<lparr>tp_timestamp = Date 1604275200000, tp_latitude = Fin 10, tp_longitude = Fin 70\<rparr>])"
  by code_simp

subsection \<open>Coordinate validity\<close>

text \<open>
  The two coordinate predicates: the number of the value is finite and lies in
  [-180, 180] in the in-memory server, in [-90, 90] in the database loader, for a
  latitude and for a longitude alike.
\<close>

lemma isValidCoordinate_iff:
  "isValidCoordinate v = (case toNumber v of Fin r \<Rightarrow> - 180 \<le> r \<and> r \<le> 180 | _ \<Rightarrow> False)"
  by (cases "toNumber v") (simp_all add: isValidCoordinate_def num_ge_def)

lemma ArgoCsvProcessor_isValidCoordinate_iff:
  "ArgoCsvProcessor_isValidCoordinate v = (case toNumber v of Fin r \<Rightarrow> - 90 \<le> r \<and> r \<le> 90 | _ \<Rightarrow> False)"
  by (cases "toNumber v") (simp_all add: ArgoCsvProcessor_isValidCoordinate_def num_ge_def)

text \<open>The database loader drops every group whose representative row has latitude 95.\<close>

lemma processProfileData_latitude_95_skipped:
  assumes "field sample ''LATITUDE'' = JNum (Fin 95)"
  shows "processProfileData fmt db profileId (sample # rest) floatMetadata = db"
  using assms
  by (auto simp: processProfileData_def Let_def fallbackPosition_def coordinateBad_def js_or_def
        ArgoCsvProcessor_isValidCoordinate_def num_ge_def
        split: sum.splits property.splits list.splits if_splits)

text \<open>
  Claim C3 fails on the in-memory server. Its \<open>isValidCoordinate\<close> tests latitude against
  the range of a longitude, so latitude 95 passes: the group of scenario B is not
  skipped, a float record at latitude 95 and a profile are written.
\<close>

theorem isValidCoordinate_accepts_latitude_95:
  "isValidCoordinate (JNum (Fin 95))
   \<and> map (\<lambda>f. (float_id f, last_position_lat f, last_position_lon f)) (FLOAT_DATA (loadCSVData fmt scenarioB))
     = [(JStr ''2901002'', Fin 95, Fin 70)]
   \<and> map (\<lambda>kv. (fst kv, map profile_id (snd kv))) (MEASUREMENTS_DATA (loadCSVData fmt scenarioB))
     = [(''2901002'', [''2901002_0''])]"
  by code_simp

subsection \<open>Queries for unknown identifiers\<close>

lemma query_unknown_identifier:
  "getProp (MEASUREMENTS_DATA st) floatId = Absent \<Longrightarrow>
     profilesForFloat st floatId = Inr (floatId, []) \<and> trajectoryForFloat st floatId = Inr (floatId, [])"
  by (simp add: profilesForFloat_def trajectoryForFloat_def)

lemma findMeasurements_none:
  "list_all (\<lambda>kv. list_all (\<lambda>p. profile_id p \<noteq> profileId) (snd kv)) kvs \<Longrightarrow>
     findMeasurements kvs profileId = []"
proof (induction kvs)
  case Nil
  then show ?case by simp
next
  case (Cons kv kvs)
  then have "find (\<lambda>p. profile_id p = profileId) (snd kv) = None"
    by (auto simp: find_None_iff list_all_iff)
  with Cons show ?case by simp
qed

lemma set_ownEntries: "set (ownEntries obj) = set obj"
  by (auto simp: ownEntries_def)

lemma measurementsForProfile_unknown:
  "list_all (\<lambda>kv. list_all (\<lambda>p. profile_id p \<noteq> profileId) (snd kv)) (MEASUREMENTS_DATA st) \<Longrightarrow>
     measurementsForProfile st profileId = Inr (profileId, [])"
  by (simp add: measurementsForProfile_def findMeasurements_none list_all_iff set_ownEntries)

text \<open>
  Claim C8 fails for the identifiers that name a property of \<open>Object.prototype\<close>. With
  the store of scenario D, whose only float is \<open>2901001\<close>, the profile and the trajectory
  query for \<open>constructor\<close> throw a \<open>TypeError\<close>; so does the profile query for \<open>toString\<close> on
  the empty store.
\<close>

theorem query_prototype_key_throws:
  "map fst (MEASUREMENTS_DATA (loadCSVData fmt scenarioD)) = [''2901001'']
   \<and> profilesForFloat (loadCSVData fmt scenarioD) ''constructor'' = Inl TypeError
   \<and> trajectoryForFloat (loadCSVData fmt scenarioD) ''constructor'' = Inl TypeError
   \<and> profilesForFloat emptyStore ''toString'' = Inl TypeError"
  by code_simp

subsection \<open>The export\<close>

text \<open>
  Claim C2 fails. The export of float \<open>2901002\<close> has the header as first line and then
  two fixed data rows, whatever the store holds: none for the empty store, one
  measurement (5, 27.1, no salinity) after scenario B.
\<close>

theorem exportCsv_two_fixed_rows:
  "documentLines (exportCsv ''2901002'')
     = [''float_id,profile_id,pressure,temperature,salinity'',
        ''2901002,1,0,28.1,35.2'', ''2901002,1,50,27.6,35.1'']
   \<and> measurementsOfFloat emptyStore ''2901002'' = []
   \<and> map (\<lambda>m. (pressure m, temperature m, salinity m)) (measurementsOfFloat (loadCSVData fmt scenarioB) ''2901002'')
     = [(Fin 5, Fin 27.1, None)]"
  by code_simp

subsection \<open>Zero coordinates in the database loader\<close>

lemma coordinateBad_truthy: "\<not> coordinateBad lat lon \<Longrightarrow> truthy lat \<and> truthy lon"
  by (simp add: coordinateBad_def)

lemma truthy_not_zero: "truthy v \<Longrightarrow> v \<noteq> JNum (Fin 0) \<and> v \<noteq> JNull \<and> v \<noteq> JUndefined"
  by (cases v) auto

lemma storedPosition_truthy:
  assumes "storedPosition floatMetadata key sample = Some (lat, lon)"
  shows "truthy lat \<and> truthy lon \<and> lat \<noteq> JNum (Fin 0) \<and> lon \<noteq> JNum (Fin 0)
       \<and> ArgoCsvProcessor_isValidCoordinate lat \<and> ArgoCsvProcessor_isValidCoordinate lon"
proof -
  from assms have "\<not> coordinateBad lat lon"
    by (auto simp: storedPosition_def split: sum.splits if_splits)
  then show ?thesis
    using truthy_not_zero [of lat] truthy_not_zero [of lon] by (simp add: coordinateBad_def)
qed

lemma zeroLatitude_null: "zeroLatitude sample \<Longrightarrow> sampleLatitude sample = JNull"
  by (auto simp: zeroLatitude_def sampleLatitude_def js_or_def)

lemma zeroLongitude_null: "zeroLongitude sample \<Longrightarrow> sampleLongitude sample = JNull"
  by (auto simp: zeroLongitude_def sampleLongitude_def js_or_def)

lemma coordinateBad_null: "coordinateBad JNull lon" "coordinateBad lat JNull"
  by (simp_all add: coordinateBad_def)

text \<open>
  With a zero latitude the loader has nothing of its own and takes the latitude of the
  last position in the float's metadata; the longitude of the row is kept when it is
  truthy. Likewise for a zero longitude.
\<close>

lemma storedPosition_zeroLatitude:
  assumes "zeroLatitude sample"
  shows "storedPosition floatMetadata key sample =
     (case getProp floatMetadata key of
        Own m \<Rightarrow>
          if positions m = [] then None
          else if coordinateBad (JNum (pos_latitude (last (positions m))))
                    (js_or (sampleLongitude sample) (JNum (pos_longitude (last (positions m)))))
          then None
          else Some (JNum (pos_latitude (last (positions m))),
                     js_or (sampleLongitude sample) (JNum (pos_longitude (last (positions m)))))
      | _ \<Rightarrow> None)"
  using zeroLatitude_null [OF assms]
  by (auto simp: storedPosition_def fallbackPosition_def coordinateBad_null js_or_def
        split: property.splits list.splits)

lemma storedPosition_zeroLongitude:
  assumes "zeroLongitude sample"
  shows "storedPosition floatMetadata key sample =
     (case getProp floatMetadata key of
        Own m \<Rightarrow>
          if positions m = [] then None
          else if coordinateBad (js_or (sampleLatitude sample) (JNum (pos_latitude (last (positions m)))))
                    (JNum (pos_longitude (last (positions m))))
          then None
          else Some (js_or (sampleLatitude sample) (JNum (pos_latitude (last (positions m)))),
                     JNum (pos_longitude (last (positions m))))
      | _ \<Rightarrow> None)"
  using zeroLongitude_null [OF assms]
  by (auto simp: storedPosition_def fallbackPosition_def coordinateBad_null js_or_def
        split: property.splits list.splits)

lemma storedPosition_own_cells:
  assumes "\<not> coordinateBad (sampleLatitude sample) (sampleLongitude sample)"
  shows "storedPosition floatMetadata key sample = Some (sampleLatitude sample, sampleLongitude sample)"
  using assms by (simp add: storedPosition_def fallbackPosition_def)

text \<open>A group whose representative row has a zero coordinate adds nothing to the metadata.\<close>

lemma metadataGroup_zero:
  assumes "zeroLatitude sample \<or> zeroLongitude sample"
  shows "metadataGroup fmt fileDate floatData (profileId, sample # rest) = (None, floatData)"
  using assms
  by (auto simp: metadataGroup_def Let_def zeroLatitude_def zeroLongitude_def js_or_def)

text \<open>
  Claim C10, as amended. A coordinate cell that is the number 0 is falsy and counts as
  absent, in the upper-case column and in its lower-case alias; such a row adds no
  position to the metadata. A group without a stored position leaves the database as it
  was. A group with a stored position appends one profile at that position and upserts
  the float with it; both coordinates are truthy, so neither is the number 0. For a row
  with a zero latitude the stored position exists only when the float has metadata with
  a position: its latitude is that of the last position of the metadata, its longitude
  is the row's own when that is truthy and the last position's otherwise, and the pair
  must pass the coordinate check. Likewise for a zero longitude. A row whose own cells
  pass the check is stored with these cells as they are, a non-empty text cell such as
  \<open>+0\<close> included. The metadata that \<open>processAllFiles\<close> hands to every group is gathered
  from all files before the first group is stored.
\<close>

theorem zero_coordinate_fallback:
  "(zeroLatitude sample \<or> zeroLongitude sample \<longrightarrow>
      metadataGroup fmt fileDate floatData (profileId, sample # rest) = (None, floatData))
   \<and> (storedPosition floatMetadata (toStr fmt (sampleFloatId sample (JStr profileId))) sample = None \<longrightarrow>
        processProfileData fmt db profileId (sample # rest) floatMetadata = db)
   \<and> (storedPosition floatMetadata (toStr fmt (sampleFloatId sample (JStr profileId))) sample = Some (lat, lon) \<longrightarrow>
        argo_profiles (processProfileData fmt db profileId (sample # rest) floatMetadata)
          = argo_profiles db @
            [\<lparr>dp_id = Suc (profile_seq db), dp_float_id = toStr fmt (sampleFloatId sample (JStr profileId)),
              dp_profile_date = extractDateFromFilename (basename profileId),
              dp_cycle_number = cycleNumberOf sample,
              dp_latitude = lat, dp_longitude = lon, dp_profile_direction = ''A''\<rparr>]
        \<and> argo_floats (processProfileData fmt db profileId (sample # rest) floatMetadata)
          = upsertRow (argo_floats db) (toStr fmt (sampleFloatId sample (JStr profileId))) lat lon
        \<and> truthy lat \<and> truthy lon \<and> lat \<noteq> JNum (Fin 0) \<and> lon \<noteq> JNum (Fin 0))
   \<and> (zeroLatitude sample \<longrightarrow>
        storedPosition floatMetadata key sample =
          (case getProp floatMetadata key of
             Own m \<Rightarrow>
               if positions m = [] then None
               else if coordinateBad (JNum (pos_latitude (last (positions m))))
                         (js_or (sampleLongitude sample) (JNum (pos_longitude (last (positions m)))))
               then None
               else Some (JNum (pos_latitude (last (positions m))),
                          js_or (sampleLongitude sample) (JNum (pos_longitude (last (positions m)))))
           | _ \<Rightarrow> None))
   \<and> (zeroLongitude sample \<longrightarrow>
        storedPosition floatMetadata key sample =
          (case getProp floatMetadata key of
             Own m \<Rightarrow>
               if positions m = [] then None
               else if coordinateBad (js_or (sampleLatitude sample) (JNum (pos_latitude (last (positions m)))))
                         (JNum (pos_longitude (last (positions m))))
               then None
               else Some (js_or (sampleLatitude sample) (JNum (pos_latitude (last (positions m)))),
                          JNum (pos_longitude (last (positions m))))
           | _ \<Rightarrow> None))
   \<and> (\<not> coordinateBad (sampleLatitude sample) (sampleLongitude sample) \<longrightarrow>
        storedPosition floatMetadata key sample = Some (sampleLatitude sample, sampleLongitude sample))
   \<and> processAllFiles fmt db dir
       = foldl (processCsvFile fmt (extractFloatMetadata fmt (profFiles dir))) db (profFiles dir)"
  using metadataGroup_zero [of sample fmt fileDate floatData profileId rest]
    processProfileData_skipped [of floatMetadata fmt sample profileId db rest]
    processProfileData_stored [of floatMetadata fmt sample profileId lat lon db rest]
    storedPosition_truthy [of floatMetadata "toStr fmt (sampleFloatId sample (JStr profileId))" sample lat lon]
    storedPosition_zeroLatitude [of sample floatMetadata key]
    storedPosition_zeroLongitude [of sample floatMetadata key]
    storedPosition_own_cells [of sample floatMetadata key]
  by (intro conjI; (blast | simp add: processAllFiles_def))

theorem zero_coordinate_fallback_witness:
  "zeroLatitude equatorRow \<and> zeroLatitude lowerZeroRow \<and> zeroLongitude meridianRow
   \<and> metadataGroup scenarioFmt defaultDate [] (''0'', [equatorRow]) = (None, [])
   \<and> storedPosition equatorMetadata ''2901003'' equatorRow = Some (JNum (Fin 3), JNum (Fin 70))
   \<and> storedPosition equatorMetadata ''2901003'' lowerZeroRow = Some (JNum (Fin 3), JNum (Fin 70))
   \<and> storedPosition equatorMetadata ''2901003'' meridianRow = Some (JNum (Fin 10), JNum (Fin 65))
   \<and> map dp_latitude (argo_profiles (processProfileData scenarioFmt emptyDatabase ''0'' [equatorRow] equatorMetadata))
       = [JNum (Fin 3)]
   \<and> map dp_longitude (argo_profiles (processProfileData scenarioFmt emptyDatabase ''0'' [equatorRow] equatorMetadata))
       = [JNum (Fin 70)]
   \<and> storedPosition [] ''2901003'' equatorRow = None
   \<and> processProfileData scenarioFmt emptyDatabase ''0'' [equatorRow] [] = emptyDatabase
   \<and> \<not> coordinateBad (sampleLatitude textZeroRow) (sampleLongitude textZeroRow)
   \<and> storedPosition [] ''2901003'' textZeroRow = Some (JStr ''+0'', JNum (Fin 70))"
proof -
  have k: "toStr scenarioFmt (sampleFloatId equatorRow (JStr ''0'')) = ''2901003''" by code_simp
  have z: "zeroLatitude equatorRow" "zeroLatitude lowerZeroRow" "zeroLongitude meridianRow" by code_simp+
  have g: "getProp equatorMetadata ''2901003'' = Own (snd (hd equatorMetadata))"
    "getProp ([] :: floatMeta jsobject) ''2901003'' = Absent" by code_simp+
  have m: "positions (snd (hd equatorMetadata)) \<noteq> []"
    "pos_latitude (last (positions (snd (hd equatorMetadata)))) = Fin 3"
    "pos_longitude (last (positions (snd (hd equatorMetadata)))) = Fin 65" by code_simp+
  have s: "sampleLongitude equatorRow = JNum (Fin 70)" "sampleLongitude lowerZeroRow = JNum (Fin 70)"
    "sampleLatitude meridianRow = JNum (Fin 10)"
    "sampleLatitude textZeroRow = JStr ''+0''" "sampleLongitude textZeroRow = JNum (Fin 70)" by code_simp+
  have c: "\<not> coordinateBad (JNum (Fin 3)) (JNum (Fin 70))" "\<not> coordinateBad (JNum (Fin 10)) (JNum (Fin 65))"
    "\<not> coordinateBad (JStr ''+0'') (JNum (Fin 70))" by code_simp+
  have e: "argo_profiles emptyDatabase = []" by (simp add: emptyDatabase_def)
  have t: "truthy (JNum (Fin 70))" by simp
  from zero_coordinate_fallback
         [of equatorRow scenarioFmt defaultDate "[]" "''0''" "[]" equatorMetadata emptyDatabase
             "JNum (Fin 3)" "JNum (Fin 70)" "''2901003''"]
       zero_coordinate_fallback
         [of lowerZeroRow scenarioFmt defaultDate "[]" "''0''" "[]" equatorMetadata emptyDatabase
             "JNum (Fin 3)" "JNum (Fin 70)" "''2901003''"]
       zero_coordinate_fallback
         [of meridianRow scenarioFmt defaultDate "[]" "''0''" "[]" equatorMetadata emptyDatabase
             "JNum (Fin 10)" "JNum (Fin 65)" "''2901003''"]
       zero_coordinate_fallback
         [of equatorRow scenarioFmt defaultDate "[]" "''0''" "[]" "[]" emptyDatabase
             "JNum (Fin 3)" "JNum (Fin 70)" "''2901003''"]
       zero_coordinate_fallback
         [of textZeroRow scenarioFmt defaultDate "[]" "''0''" "[]" "[]" emptyDatabase
             "JStr ''+0''" "JNum (Fin 70)" "''2901003''"]
       k z g m s c e t
  show ?thesis by (simp add: js_or_def)
qed

text \<open>
  Claim C10, as stated, fails. With the metadata position (3, 65) the equator row at
  longitude 70 is stored at (3, 70), which is neither the recorded position nor a skip.
  In the two files of \<open>laterPositionFiles\<close> the equator row of the first file is stored
  with the latitude of the second file, which had not been recorded before. And the
  text cell \<open>+0\<close>, whose number is 0, is stored as it is.
\<close>

theorem zero_coordinate_counterexample:
  "map dp_latitude (argo_profiles (processProfileData scenarioFmt emptyDatabase ''0'' [equatorRow] equatorMetadata))
     = [JNum (Fin 3)]
   \<and> map dp_longitude (argo_profiles (processProfileData scenarioFmt emptyDatabase ''0'' [equatorRow] equatorMetadata))
     = [JNum (Fin 70)]
   \<and> map pos_latitude (positions (snd (hd equatorMetadata))) = [Fin 3]
   \<and> map pos_longitude (positions (snd (hd equatorMetadata))) = [Fin 65]
   \<and> map dp_latitude (argo_profiles (processAllFiles scenarioFmt emptyDatabase laterPositionFiles))
     = [JNum (Fin 3), JNum (Fin 3)]
   \<and> map dp_longitude (argo_profiles (processAllFiles scenarioFmt emptyDatabase laterPositionFiles))
     = [JNum (Fin 70), JNum (Fin 65)]
   \<and> map dp_latitude (argo_profiles (processProfileData scenarioFmt emptyDatabase ''0'' [textZeroRow] []))
     = [JStr ''+0'']
   \<and> toNumber (JStr ''+0'') = Fin 0"
  by code_simp

end
